theory Spec2Isabelle
  imports Main "HOL-Library.Char_ord" "HOL-Library.List_Lexorder" "HOL-Library.Sublist"
    "HOL-Library.Multiset"
begin

section \<open>Python values, exceptions and envelopes\<close>

text \<open>
  The data-access service of \<^verbatim>\<open>mcp_server.py\<close> receives its arguments from a JSON
  request body, so an argument is a JSON value as Python's \<^verbatim>\<open>json\<close> module decodes it:
  \<^verbatim>\<open>None\<close>, a \<^verbatim>\<open>bool\<close>, an unbounded \<^verbatim>\<open>int\<close>, a \<^verbatim>\<open>str\<close>, a \<^verbatim>\<open>list\<close> or a \<^verbatim>\<open>dict\<close>
  with string keys (an association list in insertion order; a decoded object has distinct
  keys). Strings are byte strings: the UTF-8 bytes of the Python string, where a lone
  surrogate (JSON can carry one, written \<^verbatim>\<open>\ud800\<close>) is the three bytes \<^verbatim>\<open>ED A0..BF 80..BF\<close>
  that no UTF-8 text contains. JSON numbers with a fraction or an exponent (Python
  floats) are not part of the model, and neither are the limits of the machine and of
  SQLite on the size of a value (memory, disk space, the length of a text).
\<close>

datatype pyval =
    PNone
  | PBool bool
  | PInt int
  | PStr string
  | PList "pyval list"
  | PDict "(string \<times> pyval) list"

type_synonym kwargs = "(string \<times> pyval) list"

text \<open>
  An exception is its class name (\<^verbatim>\<open>type(e).__name__\<close>) and its text (\<^verbatim>\<open>str(e)\<close>). The
  exceptions of the model are instances of \<^verbatim>\<open>Exception\<close>, the class that both
  \<^verbatim>\<open>except\<close> clauses of \<^verbatim>\<open>mcp_server.py\<close> catch.
\<close>

datatype exn = Exn (kind: string) (message: string)

text \<open>\<^verbatim>\<open>type(v).__name__\<close>, as it appears in the messages of the interpreter.\<close>

fun type_name :: "pyval \<Rightarrow> string" where
  "type_name PNone = ''NoneType''"
| "type_name (PBool _) = ''bool''"
| "type_name (PInt _) = ''int''"
| "type_name (PStr _) = ''str''"
| "type_name (PList _) = ''list''"
| "type_name (PDict _) = ''dict''"

text \<open>Decimal text of an integer: \<^verbatim>\<open>str(n)\<close> in Python, and SQLite's text form of an INTEGER.\<close>

definition digit_char :: "nat \<Rightarrow> char" where
  "digit_char d = ''0123456789'' ! d"

function str_nat :: "nat \<Rightarrow> string" where
  "str_nat n = (if n < 10 then [digit_char n] else str_nat (n div 10) @ [digit_char (n mod 10)])"
  by pat_completeness auto
termination
  by (relation "measure (\<lambda>n. n)") auto

declare str_nat.simps [simp del]

definition str_int :: "int \<Rightarrow> string" where
  "str_int i = (if i < 0 then CHR ''-'' # str_nat (nat (- i)) else str_nat (nat i))"

text \<open>\<^verbatim>\<open>str.lower()\<close> on ASCII text: the letters A to Z are mapped, every other byte is kept.\<close>

definition lower_char :: "char \<Rightarrow> char" where
  "lower_char c =
     (case map_of (zip ''ABCDEFGHIJKLMNOPQRSTUVWXYZ'' ''abcdefghijklmnopqrstuvwxyz'') c of
        Some l \<Rightarrow> l
      | None \<Rightarrow> c)"

definition lower :: "string \<Rightarrow> string" where
  "lower s = map lower_char s"

section \<open>The record store\<close>

text \<open>
  The two tables of \<^verbatim>\<open>initialize_database_schema\<close>. A TEXT column that
  \<^verbatim>\<open>update_customer\<close> may write holds a text or NULL (\<open>None\<close>); the timestamps and the
  ticket columns are only ever written with strings. \<open>ticket_seq\<close> is the row of
  \<^verbatim>\<open>sqlite_sequence\<close> that AUTOINCREMENT keeps for \<^verbatim>\<open>support_tickets\<close>: the largest
  ticket id ever handed out. The column \<^verbatim>\<open>identifier\<close> is the field \<open>identifier_col\<close>
  (\<open>identifier\<close> is a reserved word of the proof language).
\<close>

record account =
  identifier_col :: int
  full_name :: "string option"
  contact_email :: "string option"
  contact_phone :: "string option"
  account_status :: "string option"
  creation_timestamp :: string
  last_modified_timestamp :: string

record ticket =
  ticket_id :: int
  account_id :: int
  description :: string
  status :: string
  priority_level :: string
  submission_timestamp :: string

record store =
  accounts :: "account list"
  tickets :: "ticket list"
  ticket_seq :: int

text \<open>The result dictionary of every operation: absent keys are \<open>None\<close>.\<close>

datatype payload =
    Account account
  | Ticket ticket
  | Accounts "account list"
  | Tickets "ticket list"

record envelope =
  success :: bool
  data :: "payload option"
  error :: "string option"
  total_count :: "nat option"

definition failure :: "string \<Rightarrow> envelope" where
  "failure msg = \<lparr>success = False, data = None, error = Some msg, total_count = None\<rparr>"

definition single :: "payload \<Rightarrow> envelope" where
  "single d = \<lparr>success = True, data = Some d, error = None, total_count = None\<rparr>"

definition listing :: "payload \<Rightarrow> nat \<Rightarrow> envelope" where
  "listing d n = \<lparr>success = True, data = Some d, error = None, total_count = Some n\<rparr>"

section \<open>Parameter binding of the sqlite3 module\<close>

text \<open>
  The values SQLite receives. \<^verbatim>\<open>cursor.execute(sql, params)\<close> adapts the parameters from
  left to right and raises at the first one it cannot adapt: an \<^verbatim>\<open>int\<close> outside the signed
  64-bit range is an \<^verbatim>\<open>OverflowError\<close>, a \<^verbatim>\<open>str\<close> with a lone surrogate a
  \<^verbatim>\<open>UnicodeEncodeError\<close> (the text is encoded as UTF-8), a \<^verbatim>\<open>list\<close> or \<^verbatim>\<open>dict\<close> a
  \<^verbatim>\<open>sqlite3.ProgrammingError\<close> naming the position (from 1) of the parameter.
\<close>

datatype sqlval = SNull | SInt int | SText string

definition fits_int64 :: "int \<Rightarrow> bool" where
  "fits_int64 n \<longleftrightarrow> - 9223372036854775808 \<le> n \<and> n \<le> 9223372036854775807"

definition overflow_error :: exn where
  "overflow_error = Exn ''OverflowError'' ''Python int too large to convert to SQLite INTEGER''"

definition unsupported_type :: "nat \<Rightarrow> pyval \<Rightarrow> exn" where
  "unsupported_type i v =
     Exn ''ProgrammingError''
       (''Error binding parameter '' @ str_nat i @ '': type '' @ [CHR 0x27] @ type_name v
          @ [CHR 0x27] @ '' is not supported'')"

text \<open>
  The surrogates of a string. \<open>surrogate_lead a b\<close> holds of the first two bytes of a
  surrogate; a continuation byte is within a character, so the bytes that are none count
  the characters. The text of the \<^verbatim>\<open>UnicodeEncodeError\<close> names the first run of surrogates:
  one character by its escape and its index, a longer run by its first and last index.
\<close>

definition continuation :: "char \<Rightarrow> bool" where
  "continuation c \<longleftrightarrow> 128 \<le> (of_char c :: nat) \<and> (of_char c :: nat) \<le> 191"

definition surrogate_lead :: "char \<Rightarrow> char \<Rightarrow> bool" where
  "surrogate_lead a b \<longleftrightarrow>
     a = CHR 0xED \<and> 160 \<le> (of_char b :: nat) \<and> (of_char b :: nat) \<le> 191"

fun has_surrogate :: "string \<Rightarrow> bool" where
  "has_surrogate (a # b # rest) = (surrogate_lead a b \<or> has_surrogate (b # rest))"
| "has_surrogate _ = False"

fun surrogate_position :: "nat \<Rightarrow> string \<Rightarrow> nat" where
  "surrogate_position p (a # b # rest) =
     (if surrogate_lead a b then p
      else surrogate_position (if continuation a then p else Suc p) (b # rest))"
| "surrogate_position p _ = p"

fun first_surrogate :: "string \<Rightarrow> string" where
  "first_surrogate (a # b # rest) =
     (if surrogate_lead a b then a # b # rest else first_surrogate (b # rest))"
| "first_surrogate _ = []"

fun surrogate_run :: "string \<Rightarrow> nat" where
  "surrogate_run (a # b # c # rest) =
     (if surrogate_lead a b then Suc (surrogate_run rest) else 0)"
| "surrogate_run _ = 0"

definition hex_char :: "nat \<Rightarrow> char" where
  "hex_char d = ''0123456789abcdef'' ! d"

definition surrogate_escape :: "string \<Rightarrow> string" where
  "surrogate_escape t =
     (case t of
        a # b # c # rest \<Rightarrow>
          (let v = 53248 + ((of_char b :: nat) - 128) * 64 + ((of_char c :: nat) - 128)
           in [CHR 0x5C, CHR ''u'', hex_char (v div 4096), hex_char (v div 256 mod 16),
               hex_char (v div 16 mod 16), hex_char (v mod 16)])
      | _ \<Rightarrow> [])"

definition unicode_encode_error :: "string \<Rightarrow> exn" where
  "unicode_encode_error t =
     (let p = surrogate_position 0 t; n = surrogate_run (first_surrogate t) in
      Exn ''UnicodeEncodeError''
        ([CHR 0x27] @ ''utf-8'' @ [CHR 0x27] @ '' codec can't encode ''
           @ (if n \<le> 1 then
                ''character '' @ [CHR 0x27] @ surrogate_escape (first_surrogate t) @ [CHR 0x27]
                  @ '' in position '' @ str_nat p
              else ''characters in position '' @ str_nat p @ ''-'' @ str_nat (p + n - 1))
           @ '': surrogates not allowed''))"

fun adapt :: "nat \<Rightarrow> pyval \<Rightarrow> exn + sqlval" where
  "adapt i PNone = Inr SNull"
| "adapt i (PBool b) = Inr (SInt (if b then 1 else 0))"
| "adapt i (PInt n) = (if fits_int64 n then Inr (SInt n) else Inl overflow_error)"
| "adapt i (PStr t) = (if has_surrogate t then Inl (unicode_encode_error t) else Inr (SText t))"
| "adapt i (PList xs) = Inl (unsupported_type i (PList xs))"
| "adapt i (PDict kvs) = Inl (unsupported_type i (PDict kvs))"

fun bind_parameters :: "nat \<Rightarrow> pyval list \<Rightarrow> exn + sqlval list" where
  "bind_parameters i [] = Inr []"
| "bind_parameters i (v # vs) =
     (case adapt i v of
        Inl e \<Rightarrow> Inl e
      | Inr x \<Rightarrow> (case bind_parameters (Suc i) vs of Inl e \<Rightarrow> Inl e | Inr xs \<Rightarrow> Inr (x # xs)))"

text \<open>What a column of TEXT affinity stores: an INTEGER is converted to its decimal text.\<close>

fun text_affinity :: "sqlval \<Rightarrow> string option" where
  "text_affinity SNull = None"
| "text_affinity (SInt n) = Some (str_int n)"
| "text_affinity (SText t) = Some t"

section \<open>The operations of \<^verbatim>\<open>DataAccessService\<close>\<close>

text \<open>
  Each operation opens its own connection, runs its statements and closes the
  connection, so an operation is a function from the store to a result and the store
  after it. A result is \<open>Inr\<close> of the returned envelope or \<open>Inl\<close> of the exception that
  leaves the method. The reading of the clock
  (\<^verbatim>\<open>datetime.datetime.now(datetime.UTC).isoformat()\<close>) is the argument \<open>now\<close>. The
  methods are named without the leading underscore of the source. The lists of the
  store are in the order of a table scan (ascending rowid).
\<close>

type_synonym result = "(exn + envelope) \<times> store"

definition fetch_customer_record :: "int \<Rightarrow> store \<Rightarrow> result" where
  "fetch_customer_record customer_id s =
     (case bind_parameters 1 [PInt customer_id] of
        Inl e \<Rightarrow> (Inl e, s)
      | Inr _ \<Rightarrow>
          (case find (\<lambda>r. identifier_col r = customer_id) (accounts s) of
             Some row \<Rightarrow> (Inr (single (Account row)), s)
           | None \<Rightarrow>
               (Inr (failure (''Account with ID '' @ str_int customer_id @ '' not found'')), s)))"

text \<open>\<^verbatim>\<open>LIMIT ?\<close>: a negative limit is no limit.\<close>

definition sql_limit :: "int \<Rightarrow> 'a list \<Rightarrow> 'a list" where
  "sql_limit n rows = (if n < 0 then rows else take (nat n) rows)"

definition search_customer_records :: "string option \<Rightarrow> int \<Rightarrow> store \<Rightarrow> result" where
  "search_customer_records status_filter limit s =
     (case (case status_filter of
              Some st \<Rightarrow>
                if st \<noteq> [] then
                  (case bind_parameters 1 [PStr st, PInt limit] of
                     Inl e \<Rightarrow> Inl e
                   | Inr _ \<Rightarrow>
                       Inr (sql_limit limit (filter (\<lambda>r. account_status r = Some st) (accounts s))))
                else
                  (case bind_parameters 1 [PInt limit] of
                     Inl e \<Rightarrow> Inl e
                   | Inr _ \<Rightarrow> Inr (sql_limit limit (accounts s)))
            | None \<Rightarrow>
                (case bind_parameters 1 [PInt limit] of
                   Inl e \<Rightarrow> Inl e
                 | Inr _ \<Rightarrow> Inr (sql_limit limit (accounts s)))) of
        Inl e \<Rightarrow> (Inl e, s)
      | Inr rows \<Rightarrow> (Inr (listing (Accounts rows) (length rows)), s))"

definition valid_fields :: "string list" where
  "valid_fields = [''full_name'', ''contact_email'', ''contact_phone'', ''account_status'']"

text \<open>One assignment \<^verbatim>\<open>k=?\<close> of the SET clause; every whitelisted column has TEXT affinity.\<close>

definition set_column :: "string \<Rightarrow> sqlval \<Rightarrow> account \<Rightarrow> account" where
  "set_column k v r =
     (if k = ''full_name'' then r\<lparr>full_name := text_affinity v\<rparr>
      else if k = ''contact_email'' then r\<lparr>contact_email := text_affinity v\<rparr>
      else if k = ''contact_phone'' then r\<lparr>contact_phone := text_affinity v\<rparr>
      else if k = ''account_status'' then r\<lparr>account_status := text_affinity v\<rparr>
      else r)"

text \<open>
  \<^verbatim>\<open>UPDATE customer_accounts SET k1=?, ..., last_modified_timestamp=? WHERE identifier=?\<close>
  on one row.
\<close>

definition update_row :: "(string \<times> sqlval) list \<Rightarrow> string \<Rightarrow> account \<Rightarrow> account" where
  "update_row assignments now r =
     (fold (\<lambda>(k, v). set_column k v) assignments r)\<lparr>last_modified_timestamp := now\<rparr>"

definition modify_customer_details :: "int \<Rightarrow> (string \<times> pyval) list \<Rightarrow> string \<Rightarrow> store \<Rightarrow> result" where
  "modify_customer_details customer_id data_dict now s =
     (let updates = filter (\<lambda>(k, v). k \<in> set valid_fields) data_dict in
      if updates = [] then (Inr (failure ''No valid fields provided for update.''), s)
      else
        (let params = map snd updates @ [PStr now, PInt customer_id] in
         case bind_parameters 1 params of
           Inl e \<Rightarrow> (Inl e, s)
         | Inr vals \<Rightarrow>
             (let s' = s\<lparr>accounts :=
                        map (\<lambda>r. if identifier_col r = customer_id
                                  then update_row (zip (map fst updates) vals) now r
                                  else r)
                          (accounts s)\<rparr>
              in case find (\<lambda>r. identifier_col r = customer_id) (accounts s') of
                   Some row \<Rightarrow> (Inr (single (Account row)), s')
                 | None \<Rightarrow>
                     (Inr (failure (''Account '' @ str_int customer_id
                                      @ '' not found or update failed.'')), s'))))"

text \<open>
  AUTOINCREMENT: the new ticket id is one more than the largest id the table has ever
  held; when that is the largest 64-bit integer the INSERT fails with SQLITE_FULL.
\<close>

definition next_ticket_id :: "store \<Rightarrow> exn + int" where
  "next_ticket_id s =
     (let largest = fold max (map ticket_id (tickets s)) (ticket_seq s) in
      if 9223372036854775807 \<le> largest
      then Inl (Exn ''OperationalError'' ''database or disk is full'')
      else Inr (largest + 1))"

definition register_new_ticket :: "int \<Rightarrow> string \<Rightarrow> string \<Rightarrow> string \<Rightarrow> store \<Rightarrow> result" where
  "register_new_ticket customer_id issue priority now s =
     (let normalized_priority = lower priority in
      if normalized_priority \<notin> set [''low'', ''medium'', ''high'']
      then (Inr (failure ''Priority must be 'low', 'medium', or 'high'.''), s)
      else
        (case bind_parameters 1
                [PInt customer_id, PStr issue, PStr ''open'', PStr normalized_priority, PStr now] of
           Inl e \<Rightarrow> (Inl e, s)
         | Inr _ \<Rightarrow>
             (case next_ticket_id s of
                Inl e \<Rightarrow> (Inl e, s)
              | Inr new_ticket_id \<Rightarrow>
                  (let inserted = \<lparr>ticket_id = new_ticket_id, account_id = customer_id,
                                    description = issue, status = ''open'',
                                    priority_level = normalized_priority,
                                    submission_timestamp = now\<rparr>;
                       s' = s\<lparr>tickets := tickets s @ [inserted], ticket_seq := new_ticket_id\<rparr>
                   in case find (\<lambda>t. ticket_id t = new_ticket_id) (tickets s') of
                        Some row \<Rightarrow> (Inr (single (Ticket row)), s')
                      | None \<Rightarrow>
                          (Inr (failure ''Database error: Failed to log new ticket.''), s')))))"

text \<open>
  \<^verbatim>\<open>ORDER BY submission_timestamp DESC\<close>: texts compare bytewise; rows with equal
  timestamps stay in scan order, as SQLite's sorter leaves them.
\<close>

fun insert_desc :: "ticket \<Rightarrow> ticket list \<Rightarrow> ticket list" where
  "insert_desc t [] = [t]"
| "insert_desc t (u # us) =
     (if submission_timestamp u \<le> submission_timestamp t then t # u # us
      else u # insert_desc t us)"

definition order_by_desc :: "ticket list \<Rightarrow> ticket list" where
  "order_by_desc rows = foldr insert_desc rows []"

definition retrieve_ticket_history :: "int \<Rightarrow> store \<Rightarrow> result" where
  "retrieve_ticket_history customer_id s =
     (case bind_parameters 1 [PInt customer_id] of
        Inl e \<Rightarrow> (Inl e, s)
      | Inr _ \<Rightarrow>
          (let rows = order_by_desc (filter (\<lambda>t. account_id t = customer_id) (tickets s))
           in (Inr (listing (Tickets rows) (length rows)), s)))"

section \<open>Calling a method with keyword arguments\<close>

text \<open>
  The dispatcher calls \<^verbatim>\<open>self.operations[operation_name](**kwargs)\<close>. Python binds the
  keywords in the order of the dictionary: a keyword \<^verbatim>\<open>self\<close> collides with the bound
  receiver, a keyword that is no parameter is unexpected; after that the required
  parameters without a value are reported. Each failure is a \<^verbatim>\<open>TypeError\<close>.
\<close>

definition type_error :: "string \<Rightarrow> exn" where
  "type_error msg = Exn ''TypeError'' msg"

definition quote :: "string \<Rightarrow> string" where
  "quote k = [CHR 0x27] @ k @ [CHR 0x27]"

fun check_keywords :: "string \<Rightarrow> string list \<Rightarrow> kwargs \<Rightarrow> exn option" where
  "check_keywords f names [] = None"
| "check_keywords f names ((k, v) # rest) =
     (if k = ''self'' then
        Some (type_error (f @ ''() got multiple values for argument '' @ quote k))
      else if k \<notin> set names then
        Some (type_error (f @ ''() got an unexpected keyword argument '' @ quote k))
      else check_keywords f names rest)"

fun and_list :: "string list \<Rightarrow> string" where
  "and_list [] = []"
| "and_list [z] = ''and '' @ quote z"
| "and_list (y # ys) = quote y @ '', '' @ and_list ys"

definition name_list :: "string list \<Rightarrow> string" where
  "name_list names =
     (case names of
        [a] \<Rightarrow> quote a
      | [a, b] \<Rightarrow> quote a @ '' and '' @ quote b
      | _ \<Rightarrow> and_list names)"

definition bind_arguments :: "string \<Rightarrow> string list \<Rightarrow> string list \<Rightarrow> kwargs \<Rightarrow> exn option" where
  "bind_arguments f required optional kw =
     (case check_keywords f (required @ optional) kw of
        Some e \<Rightarrow> Some e
      | None \<Rightarrow>
          (let missing = filter (\<lambda>p. p \<notin> set (map fst kw)) required in
           if missing = [] then None
           else Some (type_error
                  (f @ ''() missing '' @ str_nat (length missing)
                     @ '' required positional argument''
                     @ (if length missing = 1 then [] else ''s'') @ '': ''
                     @ name_list missing))))"

text \<open>
  The methods declare the types of their parameters (\<^verbatim>\<open>customer_id: int\<close>,
  \<^verbatim>\<open>issue: str\<close>, \<^verbatim>\<open>data: dict\<close>, ...), and the definitions above give their behaviour
  on arguments of these types. Python does not check the declaration: an argument of
  another type reaches SQLite, whose coercions (numeric text, REAL values) are outside
  the source. What a method does then is the parameter \<open>other\<close> of the model, an
  arbitrary behaviour; every statement below holds for all of them.
\<close>

type_synonym handler = "kwargs \<Rightarrow> string \<Rightarrow> store \<Rightarrow> result"

definition call_fetch_customer_record :: "handler \<Rightarrow> handler" where
  "call_fetch_customer_record other kw now s =
     (case bind_arguments ''DataAccessService._fetch_customer_record'' [''customer_id''] [] kw of
        Some e \<Rightarrow> (Inl e, s)
      | None \<Rightarrow>
          (case map_of kw ''customer_id'' of
             Some (PInt customer_id) \<Rightarrow> fetch_customer_record customer_id s
           | _ \<Rightarrow> other kw now s))"

definition call_search_customer_records :: "handler \<Rightarrow> handler" where
  "call_search_customer_records other kw now s =
     (case bind_arguments ''DataAccessService._search_customer_records'' []
             [''status'', ''limit''] kw of
        Some e \<Rightarrow> (Inl e, s)
      | None \<Rightarrow>
          (case (map_of kw ''status'', map_of kw ''limit'') of
             (None, None) \<Rightarrow> search_customer_records None 100 s
           | (None, Some (PInt limit)) \<Rightarrow> search_customer_records None limit s
           | (Some PNone, None) \<Rightarrow> search_customer_records None 100 s
           | (Some PNone, Some (PInt limit)) \<Rightarrow> search_customer_records None limit s
           | (Some (PStr st), None) \<Rightarrow> search_customer_records (Some st) 100 s
           | (Some (PStr st), Some (PInt limit)) \<Rightarrow> search_customer_records (Some st) limit s
           | _ \<Rightarrow> other kw now s))"

definition call_modify_customer_details :: "handler \<Rightarrow> handler" where
  "call_modify_customer_details other kw now s =
     (case bind_arguments ''DataAccessService._modify_customer_details''
             [''customer_id'', ''data''] [] kw of
        Some e \<Rightarrow> (Inl e, s)
      | None \<Rightarrow>
          (case (map_of kw ''customer_id'', map_of kw ''data'') of
             (Some (PInt customer_id), Some (PDict data_dict)) \<Rightarrow>
               modify_customer_details customer_id data_dict now s
           | _ \<Rightarrow> other kw now s))"

definition call_register_new_ticket :: "handler \<Rightarrow> handler" where
  "call_register_new_ticket other kw now s =
     (case bind_arguments ''DataAccessService._register_new_ticket''
             [''customer_id'', ''issue''] [''priority''] kw of
        Some e \<Rightarrow> (Inl e, s)
      | None \<Rightarrow>
          (case (map_of kw ''customer_id'', map_of kw ''issue'', map_of kw ''priority'') of
             (Some (PInt customer_id), Some (PStr issue), None) \<Rightarrow>
               register_new_ticket customer_id issue ''medium'' now s
           | (Some (PInt customer_id), Some (PStr issue), Some (PStr priority)) \<Rightarrow>
               register_new_ticket customer_id issue priority now s
           | _ \<Rightarrow> other kw now s))"

definition call_retrieve_ticket_history :: "handler \<Rightarrow> handler" where
  "call_retrieve_ticket_history other kw now s =
     (case bind_arguments ''DataAccessService._retrieve_ticket_history'' [''customer_id''] [] kw of
        Some e \<Rightarrow> (Inl e, s)
      | None \<Rightarrow>
          (case map_of kw ''customer_id'' of
             Some (PInt customer_id) \<Rightarrow> retrieve_ticket_history customer_id s
           | _ \<Rightarrow> other kw now s))"

section \<open>The dispatcher\<close>

text \<open>\<^verbatim>\<open>self.operations\<close>, the table that \<^verbatim>\<open>__init__\<close> builds.\<close>

definition operations :: "(string \<Rightarrow> handler) \<Rightarrow> string \<Rightarrow> handler option" where
  "operations other =
     map_of
       [(''get_customer'', call_fetch_customer_record (other ''get_customer'')),
        (''list_customers'', call_search_customer_records (other ''list_customers'')),
        (''update_customer'', call_modify_customer_details (other ''update_customer'')),
        (''create_ticket'', call_register_new_ticket (other ''create_ticket'')),
        (''get_customer_history'', call_retrieve_ticket_history (other ''get_customer_history''))]"

definition unhashable :: "pyval \<Rightarrow> exn" where
  "unhashable v = type_error (''unhashable type: '' @ quote (type_name v))"

text \<open>
  \<^verbatim>\<open>execute_operation(self, operation_name, **kwargs)\<close>. The name comes from the request
  body and may be any JSON value: the membership test hashes it (a list or a dict
  cannot be hashed, and that \<^verbatim>\<open>TypeError\<close> is raised before the \<^verbatim>\<open>try\<close>), and only a
  string can be a key of the table. Every exception of the handler is caught. \<open>kw\<close> is
  the dictionary \<^verbatim>\<open>kwargs\<close> that the body receives; the binding of the call itself is
  \<open>unpack_call\<close> below.
\<close>

definition unknown_operation :: "string \<Rightarrow> envelope" where
  "unknown_operation shown = failure (''Unknown database operation: '' @ shown)"

definition execution_failed :: "exn \<Rightarrow> envelope" where
  "execution_failed e =
     failure (''Operation execution failed: '' @ kind e @ '' - '' @ message e)"

definition execute_operation ::
  "(string \<Rightarrow> handler option) \<Rightarrow> pyval \<Rightarrow> kwargs \<Rightarrow> string \<Rightarrow> store \<Rightarrow> result" where
  "execute_operation ops operation_name kw now s =
     (case operation_name of
        PList xs \<Rightarrow> (Inl (unhashable operation_name), s)
      | PDict kvs \<Rightarrow> (Inl (unhashable operation_name), s)
      | PNone \<Rightarrow> (Inr (unknown_operation ''None''), s)
      | PBool b \<Rightarrow> (Inr (unknown_operation (if b then ''True'' else ''False'')), s)
      | PInt n \<Rightarrow> (Inr (unknown_operation (str_int n)), s)
      | PStr name \<Rightarrow>
          (case ops name of
             None \<Rightarrow> (Inr (unknown_operation name), s)
           | Some h \<Rightarrow>
               (case h kw now s of
                  (Inl e, s') \<Rightarrow> (Inr (execution_failed e), s')
                | (Inr r, s') \<Rightarrow> (Inr r, s'))))"

section \<open>The RPC endpoint\<close>

text \<open>
  The call \<^verbatim>\<open>data_service.execute_operation(op_name, **op_params)\<close> of
  \<^verbatim>\<open>call_operation_handler\<close>: \<^verbatim>\<open>**\<close> needs a mapping, and a key of the mapping that
  names a parameter already bound by position (\<^verbatim>\<open>self\<close>, \<^verbatim>\<open>operation_name\<close>) is a
  \<^verbatim>\<open>TypeError\<close> raised before the body of \<^verbatim>\<open>execute_operation\<close> runs. (The message for
  an argument that is no mapping names the module; it is written here for the module
  imported as \<^verbatim>\<open>mcp_server\<close>.)
\<close>

definition unpack_call ::
  "(string \<Rightarrow> handler option) \<Rightarrow> pyval \<Rightarrow> pyval \<Rightarrow> string \<Rightarrow> store \<Rightarrow> result" where
  "unpack_call ops op_name op_params now s =
     (case op_params of
        PDict kw \<Rightarrow>
          (case find (\<lambda>k. k = ''self'' \<or> k = ''operation_name'') (map fst kw) of
             Some k \<Rightarrow>
               (Inl (type_error (''DataAccessService.execute_operation() got multiple values ''
                                   @ ''for argument '' @ quote k)), s)
           | None \<Rightarrow> execute_operation ops op_name kw now s)
      | _ \<Rightarrow>
          (Inl (type_error (''mcp_server.DataAccessService.execute_operation() argument ''
                              @ ''after ** must be a mapping, not '' @ type_name op_params)), s))"

datatype http_response = JSONResponse (content: envelope) (status_code: nat)

definition invalid_request :: "exn \<Rightarrow> http_response" where
  "invalid_request e = JSONResponse (failure (''Invalid request format: '' @ message e)) 400"

definition attribute_error :: "pyval \<Rightarrow> string \<Rightarrow> exn" where
  "attribute_error v attr =
     Exn ''AttributeError''
       (quote (type_name v) @ '' object has no attribute '' @ quote attr)"

text \<open>
  \<^verbatim>\<open>call_operation_handler(request)\<close>. The argument is the outcome of
  \<^verbatim>\<open>await request.json()\<close>: the decoded body, or the exception of the decoder. The
  envelope is taken to be one that \<^verbatim>\<open>JSONResponse\<close> can render (its texts are UTF-8).
\<close>

definition call_operation_handler ::
  "(string \<Rightarrow> handler option) \<Rightarrow> exn + pyval \<Rightarrow> string \<Rightarrow> store \<Rightarrow> http_response \<times> store" where
  "call_operation_handler ops request_json now s =
     (case request_json of
        Inl e \<Rightarrow> (invalid_request e, s)
      | Inr request_body \<Rightarrow>
          (case request_body of
             PDict items \<Rightarrow>
               (let op_name = (case map_of items ''tool'' of Some v \<Rightarrow> v | None \<Rightarrow> PNone);
                    op_params = (case map_of items ''params'' of Some v \<Rightarrow> v | None \<Rightarrow> PDict [])
                in case unpack_call ops op_name op_params now s of
                     (Inl e, s') \<Rightarrow> (invalid_request e, s')
                   | (Inr result, s') \<Rightarrow> (JSONResponse result 200, s'))
           | _ \<Rightarrow> (invalid_request (attribute_error request_body ''get''), s)))"

section \<open>Seeding\<close>

text \<open>\<^verbatim>\<open>initialize_database_schema\<close>: both tables are dropped, recreated and seeded.\<close>

definition seed_account :: "int \<Rightarrow> string \<Rightarrow> string \<Rightarrow> string \<Rightarrow> string \<Rightarrow> string \<Rightarrow> account" where
  "seed_account i name email phone st current_utc =
     \<lparr>identifier_col = i, full_name = Some name, contact_email = Some email,
      contact_phone = Some phone, account_status = Some st,
      creation_timestamp = current_utc, last_modified_timestamp = current_utc\<rparr>"

definition seed_ticket :: "int \<Rightarrow> int \<Rightarrow> string \<Rightarrow> string \<Rightarrow> string \<Rightarrow> string \<Rightarrow> ticket" where
  "seed_ticket i acc descr st prio current_utc =
     \<lparr>ticket_id = i, account_id = acc, description = descr, status = st,
      priority_level = prio, submission_timestamp = current_utc\<rparr>"

definition initialize_database_schema :: "string \<Rightarrow> store" where
  "initialize_database_schema current_utc =
     \<lparr>accounts =
        [seed_account 1 ''Alice Premium'' ''alice@example.com'' ''111-111-1111'' ''active'' current_utc,
         seed_account 2 ''Bob Standard'' ''bob@example.com'' ''222-222-2222'' ''active'' current_utc,
         seed_account 3 ''Charlie Disabled'' ''charlie@example.com'' ''333-333-3333'' ''disabled''
           current_utc,
         seed_account 4 ''Diana Premium'' ''diana@example.com'' ''444-444-4444'' ''active'' current_utc,
         seed_account 5 ''Eve Standard'' ''eve@example.com'' ''555-555-5555'' ''active'' current_utc,
         seed_account 12345 ''Priya Patel (Premium)'' ''priya@example.com'' ''555-0999'' ''active''
           current_utc],
      tickets =
        [seed_ticket 1 1 ''Billing duplicate charge'' ''open'' ''high'' current_utc,
         seed_ticket 2 1 ''Unable to login'' ''in_progress'' ''medium'' current_utc,
         seed_ticket 3 2 ''Request upgrade'' ''open'' ''low'' current_utc,
         seed_ticket 4 4 ''Critical outage'' ''open'' ''high'' current_utc,
         seed_ticket 5 5 ''Password reset'' ''open'' ''low'' current_utc,
         seed_ticket 6 12345 ''Account upgrade assistance'' ''open'' ''medium'' current_utc,
         seed_ticket 7 12345 ''High priority refund review'' ''open'' ''high'' current_utc],
      ticket_seq = 7\<rparr>"

section \<open>The tool adapter of \<^verbatim>\<open>service_tools.py\<close>\<close>

text \<open>
  The adapter uses library functions that are outside the source; they are parameters
  of the model:
  \<^item> \<open>loads\<close> is \<^verbatim>\<open>json.loads\<close>: the decoded value, or the exception it raises
    (\<^verbatim>\<open>JSONDecodeError\<close> for a text it cannot parse);
  \<^item> \<open>dumps\<close> is \<^verbatim>\<open>json.dumps(v, indent=2)\<close>;
  \<^item> \<open>repr\<close> is \<^verbatim>\<open>str\<close> on a list or a dict;
  \<^item> \<open>post\<close> is the round trip \<^verbatim>\<open>client.post(url, json=body)\<close>,
    \<^verbatim>\<open>response.raise_for_status()\<close>, \<^verbatim>\<open>response.json()\<close> on a network in state \<open>w\<close>:
    the decoded response, or the exception of the transport.
\<close>

fun truthy :: "pyval \<Rightarrow> bool" where
  "truthy PNone = False"
| "truthy (PBool b) = b"
| "truthy (PInt n) = (n \<noteq> 0)"
| "truthy (PStr t) = (t \<noteq> [])"
| "truthy (PList xs) = (xs \<noteq> [])"
| "truthy (PDict kvs) = (kvs \<noteq> [])"

fun py_str :: "(pyval \<Rightarrow> string) \<Rightarrow> pyval \<Rightarrow> string" where
  "py_str repr PNone = ''None''"
| "py_str repr (PBool b) = (if b then ''True'' else ''False'')"
| "py_str repr (PInt n) = str_int n"
| "py_str repr (PStr t) = t"
| "py_str repr v = repr v"

definition execute_mcp_operation_async ::
  "(pyval \<Rightarrow> string) \<Rightarrow> (pyval \<Rightarrow> string) \<Rightarrow> (pyval \<Rightarrow> 'w \<Rightarrow> (exn + pyval) \<times> 'w)
     \<Rightarrow> string \<Rightarrow> kwargs \<Rightarrow> 'w \<Rightarrow> string \<times> 'w" where
  "execute_mcp_operation_async dumps repr post operation_name parameters w =
     (case post (PDict [(''tool'', PStr operation_name), (''params'', PDict parameters)]) w of
        (Inl e, w') \<Rightarrow> (''Service Execution Failure: '' @ message e, w')
      | (Inr operation_result, w') \<Rightarrow>
          (case operation_result of
             PDict items \<Rightarrow>
               (if truthy (case map_of items ''success'' of Some v \<Rightarrow> v | None \<Rightarrow> PNone) then
                  (let returned_data =
                         (case map_of items ''data'' of Some v \<Rightarrow> v | None \<Rightarrow> PNone)
                   in case returned_data of
                        PDict kvs \<Rightarrow> (dumps returned_data, w')
                      | PList xs \<Rightarrow> (dumps returned_data, w')
                      | _ \<Rightarrow> (py_str repr returned_data, w'))
                else
                  (''Operation Error: ''
                     @ py_str repr (case map_of items ''error'' of
                                      Some v \<Rightarrow> v
                                    | None \<Rightarrow> PStr ''Unknown service error''), w'))
           | _ \<Rightarrow>
               (''Service Execution Failure: ''
                  @ message (attribute_error operation_result ''get''), w')))"

text \<open>
  \<^verbatim>\<open>_execute_mcp_operation\<close> runs the coroutine to completion on an event loop and
  returns its string.
\<close>

definition execute_mcp_operation ::
  "(pyval \<Rightarrow> string) \<Rightarrow> (pyval \<Rightarrow> string) \<Rightarrow> (pyval \<Rightarrow> 'w \<Rightarrow> (exn + pyval) \<times> 'w)
     \<Rightarrow> string \<Rightarrow> kwargs \<Rightarrow> 'w \<Rightarrow> string \<times> 'w" where
  "execute_mcp_operation dumps repr post operation_name parameters w =
     execute_mcp_operation_async dumps repr post operation_name parameters w"

definition fetch_customer_data ::
  "(pyval \<Rightarrow> string) \<Rightarrow> (pyval \<Rightarrow> string) \<Rightarrow> (pyval \<Rightarrow> 'w \<Rightarrow> (exn + pyval) \<times> 'w)
     \<Rightarrow> int \<Rightarrow> 'w \<Rightarrow> string \<times> 'w" where
  "fetch_customer_data dumps repr post customer_id w =
     execute_mcp_operation dumps repr post ''get_customer'' [(''customer_id'', PInt customer_id)] w"

text \<open>
  \<^verbatim>\<open>modify_customer_record\<close>: only \<^verbatim>\<open>json.JSONDecodeError\<close> is caught; any other
  exception of the decoder leaves the function.
\<close>

definition modify_customer_record ::
  "(string \<Rightarrow> exn + pyval) \<Rightarrow> (pyval \<Rightarrow> string) \<Rightarrow> (pyval \<Rightarrow> string)
     \<Rightarrow> (pyval \<Rightarrow> 'w \<Rightarrow> (exn + pyval) \<times> 'w)
     \<Rightarrow> int \<Rightarrow> string \<Rightarrow> 'w \<Rightarrow> (exn + string) \<times> 'w" where
  "modify_customer_record loads dumps repr post customer_id update_payload w =
     (case loads update_payload of
        Inl e \<Rightarrow>
          (if kind e = ''JSONDecodeError'' then
             (Inr ''Parsing Error: The provided data for update must be a valid JSON string.'', w)
           else (Inl e, w))
      | Inr payload_dict \<Rightarrow>
          (case execute_mcp_operation dumps repr post ''update_customer''
                  [(''customer_id'', PInt customer_id), (''data'', payload_dict)] w of
             (text, w') \<Rightarrow> (Inr text, w')))"

definition register_support_issue ::
  "(pyval \<Rightarrow> string) \<Rightarrow> (pyval \<Rightarrow> string) \<Rightarrow> (pyval \<Rightarrow> 'w \<Rightarrow> (exn + pyval) \<times> 'w)
     \<Rightarrow> int \<Rightarrow> string \<Rightarrow> string \<Rightarrow> 'w \<Rightarrow> string \<times> 'w" where
  "register_support_issue dumps repr post customer_id query_description urgency_level w =
     execute_mcp_operation dumps repr post ''create_ticket''
       [(''customer_id'', PInt customer_id), (''issue'', PStr query_description),
        (''priority'', PStr urgency_level)] w"

definition retrieve_customer_history ::
  "(pyval \<Rightarrow> string) \<Rightarrow> (pyval \<Rightarrow> string) \<Rightarrow> (pyval \<Rightarrow> 'w \<Rightarrow> (exn + pyval) \<times> 'w)
     \<Rightarrow> int \<Rightarrow> 'w \<Rightarrow> string \<times> 'w" where
  "retrieve_customer_history dumps repr post customer_id w =
     execute_mcp_operation dumps repr post ''get_customer_history''
       [(''customer_id'', PInt customer_id)] w"

subsection \<open>The adapter connected to the server\<close>

text \<open>
  The network when the server of \<^verbatim>\<open>mcp_server.py\<close> listens at the adapter's URL: the
  store of the server, the reading of its clock, and the bodies of the requests that
  have reached \<^verbatim>\<open>POST /call\<close>. \<open>envelope_json\<close> is the envelope as the client decodes it
  from the response; a status of 400 is raised by \<^verbatim>\<open>raise_for_status\<close>.
\<close>

record network =
  server_store :: store
  server_clock :: string
  requests :: "pyval list"

definition opt_text :: "string option \<Rightarrow> pyval" where
  "opt_text t = (case t of None \<Rightarrow> PNone | Some x \<Rightarrow> PStr x)"

definition account_json :: "account \<Rightarrow> pyval" where
  "account_json r =
     PDict [(''identifier'', PInt (identifier_col r)),
            (''full_name'', opt_text (full_name r)),
            (''contact_email'', opt_text (contact_email r)),
            (''contact_phone'', opt_text (contact_phone r)),
            (''account_status'', opt_text (account_status r)),
            (''creation_timestamp'', PStr (creation_timestamp r)),
            (''last_modified_timestamp'', PStr (last_modified_timestamp r))]"

definition ticket_json :: "ticket \<Rightarrow> pyval" where
  "ticket_json t =
     PDict [(''ticket_id'', PInt (ticket_id t)),
            (''account_id'', PInt (account_id t)),
            (''description'', PStr (description t)),
            (''status'', PStr (status t)),
            (''priority_level'', PStr (priority_level t)),
            (''submission_timestamp'', PStr (submission_timestamp t))]"

fun payload_json :: "payload \<Rightarrow> pyval" where
  "payload_json (Account r) = account_json r"
| "payload_json (Ticket t) = ticket_json t"
| "payload_json (Accounts rs) = PList (map account_json rs)"
| "payload_json (Tickets ts) = PList (map ticket_json ts)"

definition envelope_json :: "envelope \<Rightarrow> pyval" where
  "envelope_json e =
     PDict ([(''success'', PBool (success e))]
            @ (case data e of None \<Rightarrow> [] | Some d \<Rightarrow> [(''data'', payload_json d)])
            @ (case error e of None \<Rightarrow> [] | Some m \<Rightarrow> [(''error'', PStr m)])
            @ (case total_count e of None \<Rightarrow> [] | Some n \<Rightarrow> [(''total_count'', PInt (int n))]))"

definition http_status_error :: exn where
  "http_status_error =
     Exn ''HTTPStatusError''
       (''Client error '400 Bad Request' for url '' @ quote ''http://127.0.0.1:8000/call''
          @ [CHR 0x0A] @ ''For more information check: ''
          @ ''https://developer.mozilla.org/en-US/docs/Web/HTTP/Status/400'')"

definition rpc_post :: "(string \<Rightarrow> handler) \<Rightarrow> pyval \<Rightarrow> network \<Rightarrow> (exn + pyval) \<times> network" where
  "rpc_post other body w =
     (case call_operation_handler (operations other) (Inr body) (server_clock w) (server_store w) of
        (response, s') \<Rightarrow>
          (if status_code response = 400 then Inl http_status_error
           else Inr (envelope_json (content response)),
           w\<lparr>server_store := s', requests := requests w @ [body]\<rparr>))"

section \<open>The operations as a caller invokes them\<close>

text \<open>
  An operation is invoked by name through \<open>execute_operation\<close>, with the keyword
  arguments the adapter sends.
\<close>

definition get_customer :: "(string \<Rightarrow> handler) \<Rightarrow> int \<Rightarrow> string \<Rightarrow> store \<Rightarrow> result" where
  "get_customer other customer_id now s =
     execute_operation (operations other) (PStr ''get_customer'')
       [(''customer_id'', PInt customer_id)] now s"

definition update_customer ::
  "(string \<Rightarrow> handler) \<Rightarrow> int \<Rightarrow> (string \<times> pyval) list \<Rightarrow> string \<Rightarrow> store \<Rightarrow> result" where
  "update_customer other customer_id data_dict now s =
     execute_operation (operations other) (PStr ''update_customer'')
       [(''customer_id'', PInt customer_id), (''data'', PDict data_dict)] now s"

definition create_ticket ::
  "(string \<Rightarrow> handler) \<Rightarrow> int \<Rightarrow> string \<Rightarrow> string \<Rightarrow> string \<Rightarrow> store \<Rightarrow> result" where
  "create_ticket other customer_id issue priority now s =
     execute_operation (operations other) (PStr ''create_ticket'')
       [(''customer_id'', PInt customer_id), (''issue'', PStr issue),
        (''priority'', PStr priority)] now s"

definition get_customer_history :: "(string \<Rightarrow> handler) \<Rightarrow> int \<Rightarrow> string \<Rightarrow> store \<Rightarrow> result" where
  "get_customer_history other customer_id now s =
     execute_operation (operations other) (PStr ''get_customer_history'')
       [(''customer_id'', PInt customer_id)] now s"

text \<open>The names of the table, and the parameters each method declares (required, optional).\<close>

definition operation_names :: "string list" where
  "operation_names =
     [''get_customer'', ''list_customers'', ''update_customer'', ''create_ticket'',
      ''get_customer_history'']"

definition parameter_names :: "string \<Rightarrow> string list \<times> string list" where
  "parameter_names name =
     (if name = ''get_customer'' then ([''customer_id''], [])
      else if name = ''list_customers'' then ([], [''status'', ''limit''])
      else if name = ''update_customer'' then ([''customer_id'', ''data''], [])
      else if name = ''create_ticket'' then ([''customer_id'', ''issue''], [''priority''])
      else if name = ''get_customer_history'' then ([''customer_id''], [])
      else ([], []))"

text \<open>
  What SQLite guarantees of the primary key of \<^verbatim>\<open>customer_accounts\<close>: the identifiers are
  64-bit integers and no two rows share one.
\<close>

definition primary_key :: "store \<Rightarrow> bool" where
  "primary_key s \<longleftrightarrow>
     distinct (map identifier_col (accounts s))
     \<and> list_all (\<lambda>r. fits_int64 (identifier_col r)) (accounts s)"

text \<open>
  The value of a whitelisted column, by the name of the column (one of the four names of
  \<open>valid_fields\<close>).
\<close>

definition column :: "string \<Rightarrow> account \<Rightarrow> string option" where
  "column k r =
     (if k = ''full_name'' then full_name r
      else if k = ''contact_email'' then contact_email r
      else if k = ''contact_phone'' then contact_phone r
      else account_status r)"

text \<open>
  What a whitelisted column holds after a Python value has been written to it. A list or
  a dict cannot be written (\<open>adapt\<close> raises), so the last equation is never read after a
  successful update.
\<close>

fun stored_text :: "pyval \<Rightarrow> string option" where
  "stored_text PNone = None"
| "stored_text (PBool b) = Some (if b then ''1'' else ''0'')"
| "stored_text (PInt n) = Some (str_int n)"
| "stored_text (PStr t) = Some t"
| "stored_text v = None"

text \<open>
  An instance of the parameter \<open>other\<close>, for evaluating the model on concrete calls: every
  call with an argument outside the declared types raises. None of the calls evaluated
  below reaches it.
\<close>

definition sample_other :: "string \<Rightarrow> handler" where
  "sample_other name kw now s = (Inl (Exn ''IntegrityError'' ''datatype mismatch''), s)"

section \<open>Auxiliary facts\<close>

lemma surrogate_lead_other [simp]: "a \<noteq> CHR 0xED \<Longrightarrow> \<not> surrogate_lead a b"
  by (simp add: surrogate_lead_def)

lemma operations_simps:
  "operations other ''get_customer'' = Some (call_fetch_customer_record (other ''get_customer''))"
  "operations other ''list_customers'' = Some (call_search_customer_records (other ''list_customers''))"
  "operations other ''update_customer'' = Some (call_modify_customer_details (other ''update_customer''))"
  "operations other ''create_ticket'' = Some (call_register_new_ticket (other ''create_ticket''))"
  "operations other ''get_customer_history'' = Some (call_retrieve_ticket_history (other ''get_customer_history''))"
  by (simp_all add: operations_def)

lemma operations_None:
  "name \<notin> set operation_names \<Longrightarrow> operations other name = None"
  by (simp add: operations_def operation_names_def)

lemma try_except:
  "ops name = Some h \<Longrightarrow>
   execute_operation ops (PStr name) kw now s =
     (case h kw now s of (Inl e, s') \<Rightarrow> (Inr (execution_failed e), s') | (Inr r, s') \<Rightarrow> (Inr r, s'))"
  by (simp add: execute_operation_def)

lemma get_customer_unfold:
  "get_customer other customer_id now s =
     (case fetch_customer_record customer_id s of
        (Inl e, s') \<Rightarrow> (Inr (execution_failed e), s')
      | (Inr r, s') \<Rightarrow> (Inr r, s'))"
  by (simp add: get_customer_def try_except operations_simps call_fetch_customer_record_def
        bind_arguments_def)

lemma update_customer_unfold:
  "update_customer other customer_id data_dict now s =
     (case modify_customer_details customer_id data_dict now s of
        (Inl e, s') \<Rightarrow> (Inr (execution_failed e), s')
      | (Inr r, s') \<Rightarrow> (Inr r, s'))"
  by (simp add: update_customer_def try_except operations_simps call_modify_customer_details_def
        bind_arguments_def)

lemma create_ticket_unfold:
  "create_ticket other customer_id issue priority now s =
     (case register_new_ticket customer_id issue priority now s of
        (Inl e, s') \<Rightarrow> (Inr (execution_failed e), s')
      | (Inr r, s') \<Rightarrow> (Inr r, s'))"
  by (simp add: create_ticket_def try_except operations_simps call_register_new_ticket_def
        bind_arguments_def)

lemma get_customer_history_unfold:
  "get_customer_history other customer_id now s =
     (case retrieve_ticket_history customer_id s of
        (Inl e, s') \<Rightarrow> (Inr (execution_failed e), s')
      | (Inr r, s') \<Rightarrow> (Inr r, s'))"
  by (simp add: get_customer_history_def try_except operations_simps
        call_retrieve_ticket_history_def bind_arguments_def)

lemma success_failure [simp]: "success (failure msg) = False" "error (failure msg) = Some msg"
  "data (failure msg) = None" "total_count (failure msg) = None"
  by (simp_all add: failure_def)

lemma success_single [simp]: "success (single d) = True" "data (single d) = Some d"
  "error (single d) = None" "total_count (single d) = None"
  by (simp_all add: single_def)

lemma success_listing [simp]: "success (listing d n) = True" "data (listing d n) = Some d"
  "error (listing d n) = None" "total_count (listing d n) = Some n"
  by (simp_all add: listing_def)

lemma find_distinct_key:
  "distinct (map f xs) \<Longrightarrow> x \<in> set xs \<Longrightarrow> find (\<lambda>r. f r = f x) xs = Some x"
  by (induction xs) (auto simp: image_iff)

lemma find_absent_key:
  "k \<notin> set (map f xs) \<Longrightarrow> find (\<lambda>r. f r = k) xs = None"
  by (induction xs) auto

lemma primary_key_seeded: "primary_key (initialize_database_schema current_utc)"
  by (simp add: primary_key_def initialize_database_schema_def seed_account_def fits_int64_def)

lemma set_insert_desc: "set (insert_desc t ts) = insert t (set ts)"
  by (induction ts) auto

lemma mset_insert_desc: "mset (insert_desc t ts) = add_mset t (mset ts)"
  by (induction ts) auto

lemma sorted_insert_desc:
  "sorted_wrt (\<lambda>a b. submission_timestamp b \<le> submission_timestamp a) ts \<Longrightarrow>
   sorted_wrt (\<lambda>a b. submission_timestamp b \<le> submission_timestamp a) (insert_desc t ts)"
  by (induction ts) (auto simp: set_insert_desc)

lemma mset_order_by_desc: "mset (order_by_desc ts) = mset ts"
  by (induction ts) (simp_all add: order_by_desc_def mset_insert_desc)

lemma sorted_order_by_desc:
  "sorted_wrt (\<lambda>a b. submission_timestamp b \<le> submission_timestamp a) (order_by_desc ts)"
  by (induction ts) (simp_all add: order_by_desc_def sorted_insert_desc)

lemma length_order_by_desc: "length (order_by_desc ts) = length ts"
  using mset_order_by_desc [of ts] by (metis size_mset)

lemma fold_max_lower: "(a::int) \<le> fold max xs a"
proof (induction xs arbitrary: a)
  case Nil
  show ?case by simp
next
  case (Cons x xs)
  have "a \<le> max x a" by simp
  also have "max x a \<le> fold max xs (max x a)" by (rule Cons.IH)
  finally show ?case by simp
qed

lemma fold_max_upper: "x \<in> set xs \<Longrightarrow> (x::int) \<le> fold max xs a"
proof (induction xs arbitrary: a)
  case Nil
  then show ?case by simp
next
  case (Cons y ys)
  show ?case
  proof (cases "x = y")
    case True
    have "x \<le> max y a" using True by simp
    also have "max y a \<le> fold max ys (max y a)" by (rule fold_max_lower)
    finally show ?thesis by simp
  next
    case False
    with Cons.prems have "x \<in> set ys" by simp
    then show ?thesis by (simp add: Cons.IH)
  qed
qed

lemma find_snoc_fresh:
  "\<forall>x \<in> set xs. \<not> P x \<Longrightarrow> P y \<Longrightarrow> find P (xs @ [y]) = Some y"
  by (induction xs) auto

lemma next_ticket_id_fresh:
  assumes "next_ticket_id s = Inr n"
  shows "\<forall>t \<in> set (tickets s). ticket_id t \<noteq> n"
proof
  fix t
  assume "t \<in> set (tickets s)"
  then have "ticket_id t \<le> fold max (map ticket_id (tickets s)) (ticket_seq s)"
    by (intro fold_max_upper) simp
  moreover from assms have "n = fold max (map ticket_id (tickets s)) (ticket_seq s) + 1"
    by (simp add: next_ticket_id_def Let_def split: if_splits)
  ultimately show "ticket_id t \<noteq> n" by simp
qed

lemma next_ticket_id_seeded: "next_ticket_id (initialize_database_schema current_utc) = Inr 8"
  by (simp add: next_ticket_id_def initialize_database_schema_def seed_ticket_def)

lemma str_int_one: "str_int 1 = ''1''" and str_int_zero: "str_int 0 = ''0''"
  by (simp_all add: str_int_def str_nat.simps digit_char_def)

lemma adapt_stored: "adapt i v = Inr x \<Longrightarrow> text_affinity x = stored_text v"
  by (cases v) (auto simp: str_int_one str_int_zero split: if_splits)

lemma bind_parameters_append:
  "bind_parameters i (xs @ ys) = Inr vals \<Longrightarrow>
   \<exists>va vb. vals = va @ vb \<and> length va = length xs
     \<and> map text_affinity va = map stored_text xs"
proof (induction xs arbitrary: i vals)
  case Nil
  then show ?case by simp
next
  case (Cons x xs)
  from Cons.prems obtain v rest where v: "adapt i x = Inr v"
    and rest: "bind_parameters (Suc i) (xs @ ys) = Inr rest" and vals: "vals = v # rest"
    by (auto split: sum.splits)
  from Cons.IH [OF rest] obtain va vb where "rest = va @ vb" "length va = length xs"
    "map text_affinity va = map stored_text xs"
    by blast
  with v vals have "vals = (v # va) @ vb \<and> length (v # va) = length (x # xs)
      \<and> map text_affinity (v # va) = map stored_text (x # xs)"
    by (simp add: adapt_stored)
  then show ?case by blast
qed

lemma column_set_column:
  "k' \<in> set valid_fields \<Longrightarrow>
   column k' (set_column k v r) = (if k = k' then text_affinity v else column k' r)"
  by (auto simp: column_def set_column_def valid_fields_def)

lemma fold_set_column:
  "distinct (map fst A) \<Longrightarrow> k \<in> set valid_fields \<Longrightarrow>
   column k (fold (\<lambda>(k, v). set_column k v) A r) =
     (case map_of A k of None \<Rightarrow> column k r | Some x \<Rightarrow> text_affinity x)"
proof (induction A arbitrary: r)
  case Nil
  then show ?case by simp
next
  case (Cons a A)
  obtain k0 v0 where a: "a = (k0, v0)" by (cases a)
  from Cons.prems have d: "distinct (map fst A)" and fresh: "k0 \<notin> fst ` set A"
    by (simp_all add: a)
  from fresh have none: "map_of A k0 = None"
    by (simp add: map_of_eq_None_iff)
  show ?case
    using Cons.IH [OF d Cons.prems(2), of "set_column k0 v0 r"] Cons.prems(2) none
    by (auto simp: a column_set_column split: option.splits)
qed

lemma fold_set_column_frame:
  "identifier_col (fold (\<lambda>(k, v). set_column k v) A r) = identifier_col r
   \<and> creation_timestamp (fold (\<lambda>(k, v). set_column k v) A r) = creation_timestamp r
   \<and> last_modified_timestamp (fold (\<lambda>(k, v). set_column k v) A r) = last_modified_timestamp r"
  by (induction A arbitrary: r) (auto simp: set_column_def)

lemma update_row_frame:
  "identifier_col (update_row A now r) = identifier_col r"
  "creation_timestamp (update_row A now r) = creation_timestamp r"
  "last_modified_timestamp (update_row A now r) = now"
  by (simp_all add: update_row_def fold_set_column_frame)

lemma column_last_modified: "column k (r\<lparr>last_modified_timestamp := t\<rparr>) = column k r"
  by (simp add: column_def)

lemma column_update_row:
  "distinct (map fst A) \<Longrightarrow> k \<in> set valid_fields \<Longrightarrow>
   column k (update_row A now r) =
     (case map_of A k of None \<Rightarrow> column k r | Some x \<Rightarrow> text_affinity x)"
  by (simp add: update_row_def column_last_modified fold_set_column)

lemma map_of_filter_key:
  "P k \<Longrightarrow> map_of (filter (\<lambda>(k, v). P k) xs) k = map_of xs k"
  by (induction xs) auto

lemma distinct_filter_keys:
  "distinct (map fst xs) \<Longrightarrow> distinct (map fst (filter P xs))"
  by (induction xs) (auto simp: image_iff)

lemma find_map_key:
  "(\<And>r. f (g r) = f r) \<Longrightarrow> find (\<lambda>r. f r = k) (map g xs) = map_option g (find (\<lambda>r. f r = k) xs)"
  by (induction xs) auto

lemma filter_filter_whitelist:
  "filter (\<lambda>(k, v). k \<in> W) (filter (\<lambda>(k, v). k \<in> W) xs) = filter (\<lambda>(k, v). k \<in> W) xs"
  by (induction xs) auto

lemma modify_customer_details_whitelist:
  "modify_customer_details customer_id (filter (\<lambda>(k, v). k \<in> set valid_fields) data_dict) now s
     = modify_customer_details customer_id data_dict now s"
  by (simp only: modify_customer_details_def filter_filter_whitelist)

lemma modify_customer_details_success:
  assumes "modify_customer_details customer_id data_dict now s = (Inr env, s')"
    and "success env"
  shows "\<exists>vals row.
           bind_parameters 1 (map snd (filter (\<lambda>(k, v). k \<in> set valid_fields) data_dict)
                               @ [PStr now, PInt customer_id]) = Inr vals
           \<and> s' = s\<lparr>accounts :=
                      map (\<lambda>r. if identifier_col r = customer_id
                                then update_row
                                       (zip (map fst (filter (\<lambda>(k, v). k \<in> set valid_fields)
                                                        data_dict)) vals) now r
                                else r)
                        (accounts s)\<rparr>
           \<and> find (\<lambda>r. identifier_col r = customer_id) (accounts s') = Some row
           \<and> env = single (Account row)"
  using assms
  by (auto simp: modify_customer_details_def Let_def split: if_splits sum.splits option.splits)

lemma map_of_zip_map:
  "map_of (zip ks (map f xs)) k = map_option f (map_of (zip ks xs) k)"
proof (induction ks arbitrary: xs)
  case Nil
  show ?case by simp
next
  case (Cons a ks)
  show ?case by (cases xs) (simp_all add: Cons.IH)
qed

lemma zip_prefix: "length xs = length ys \<Longrightarrow> zip xs (ys @ zs) = zip xs ys"
  by (simp add: zip_append2)

lemma distinct_key_unique:
  "distinct (map f xs) \<Longrightarrow> x \<in> set xs \<Longrightarrow> y \<in> set xs \<Longrightarrow> f x = f y \<Longrightarrow> x = y"
  by (meson distinct_map inj_onD)

lemma modify_customer_details_frame:
  assumes dict: "distinct (map fst data_dict)"
    and pk: "primary_key s"
    and old: "old \<in> set (accounts s)" "identifier_col old = customer_id"
    and call: "modify_customer_details customer_id data_dict now s = (Inr env, s')"
    and ok: "success env"
  shows "\<exists>new. env = single (Account new)
           \<and> accounts s' =
               map (\<lambda>r. if identifier_col r = customer_id then new else r) (accounts s)
           \<and> tickets s' = tickets s \<and> ticket_seq s' = ticket_seq s
           \<and> identifier_col new = identifier_col old
           \<and> creation_timestamp new = creation_timestamp old
           \<and> last_modified_timestamp new = now
           \<and> (\<forall>k \<in> set valid_fields.
                 column k new =
                   (case map_of data_dict k of
                      None \<Rightarrow> column k old
                    | Some v \<Rightarrow> stored_text v))"
proof -
  let ?U = "filter (\<lambda>(k, v). k \<in> set valid_fields) data_dict"
  let ?ks = "map fst ?U"
  from modify_customer_details_success [OF call ok] obtain vals row where
    bound: "bind_parameters 1 (map snd ?U @ [PStr now, PInt customer_id]) = Inr vals"
    and s': "s' = s\<lparr>accounts :=
                     map (\<lambda>r. if identifier_col r = customer_id
                               then update_row (zip ?ks vals) now r else r) (accounts s)\<rparr>"
    and found: "find (\<lambda>r. identifier_col r = customer_id) (accounts s') = Some row"
    and env: "env = single (Account row)"
    by blast
  from bind_parameters_append [OF bound] obtain va vb where
    vals: "vals = va @ vb" and len: "length va = length (map snd ?U)"
    and texts: "map text_affinity va = map stored_text (map snd ?U)"
    by blast
  let ?A = "zip ?ks va"
  let ?g = "\<lambda>r. if identifier_col r = customer_id then update_row ?A now r else r"
  let ?new = "update_row ?A now old"
  have zip: "zip ?ks vals = ?A"
    using len by (simp add: vals zip_prefix)
  have keys: "map fst ?A = ?ks"
    using len by simp
  have dist: "distinct (map fst ?A)"
    using dict by (simp only: keys distinct_filter_keys)
  have accs: "accounts s' = map ?g (accounts s)"
    by (simp add: s' zip)
  have ids: "\<And>r. identifier_col (?g r) = identifier_col r"
    by (simp add: update_row_frame)
  from pk have distinct_ids: "distinct (map identifier_col (accounts s))"
    by (simp add: primary_key_def)
  have "find (\<lambda>r. identifier_col r = customer_id) (accounts s) = Some old"
    using find_distinct_key [OF distinct_ids old(1)] old(2) by simp
  then have "find (\<lambda>r. identifier_col r = customer_id) (accounts s') = Some ?new"
    using old(2) by (simp add: accs find_map_key [of identifier_col ?g, OF ids])
  with found have row: "row = ?new" by simp
  have same: "map ?g (accounts s)
                = map (\<lambda>r. if identifier_col r = customer_id then ?new else r) (accounts s)"
  proof (rule map_cong [OF refl])
    fix r
    assume r: "r \<in> set (accounts s)"
    show "?g r = (if identifier_col r = customer_id then ?new else r)"
    proof (cases "identifier_col r = customer_id")
      case True
      with old have "r = old"
        using distinct_key_unique [OF distinct_ids r old(1)] by simp
      with True show ?thesis by simp
    next
      case False
      then show ?thesis by simp
    qed
  qed
  have cols: "\<forall>k \<in> set valid_fields.
                column k ?new =
                  (case map_of data_dict k of None \<Rightarrow> column k old | Some v \<Rightarrow> stored_text v)"
  proof
    fix k
    assume k: "k \<in> set valid_fields"
    have "map_option text_affinity (map_of ?A k) = map_of (zip ?ks (map text_affinity va)) k"
      by (simp add: map_of_zip_map)
    also have "\<dots> = map_of (zip ?ks (map stored_text (map snd ?U))) k"
      by (simp only: texts)
    also have "\<dots> = map_option stored_text (map_of (zip ?ks (map snd ?U)) k)"
      by (simp only: map_of_zip_map)
    also have "zip ?ks (map snd ?U) = ?U"
      by (simp add: zip_map_fst_snd)
    also have "map_of ?U k = map_of data_dict k"
      using k by (simp add: map_of_filter_key [of "\<lambda>k. k \<in> set valid_fields"])
    finally have rel: "map_option text_affinity (map_of ?A k)
                         = map_option stored_text (map_of data_dict k)" .
    have "column k ?new = (case map_of ?A k of None \<Rightarrow> column k old | Some x \<Rightarrow> text_affinity x)"
      using dist k by (rule column_update_row)
    with rel show "column k ?new =
        (case map_of data_dict k of None \<Rightarrow> column k old | Some v \<Rightarrow> stored_text v)"
      by (cases "map_of ?A k"; cases "map_of data_dict k") simp_all
  qed
  have "env = single (Account ?new)" by (simp add: env row)
  moreover have "accounts s' = map (\<lambda>r. if identifier_col r = customer_id then ?new else r) (accounts s)"
    by (simp only: accs same)
  moreover have "tickets s' = tickets s \<and> ticket_seq s' = ticket_seq s"
    by (simp add: s')
  moreover have "identifier_col ?new = identifier_col old
      \<and> creation_timestamp ?new = creation_timestamp old \<and> last_modified_timestamp ?new = now"
    by (simp add: update_row_frame)
  ultimately show ?thesis using cols by blast
qed

lemma operations_Some:
  "name \<in> set operation_names \<Longrightarrow> \<exists>h. operations other name = Some h"
  by (auto simp: operation_names_def operations_def)

lemma execute_operation_unknown:
  "name \<notin> set operation_names \<Longrightarrow>
   execute_operation (operations other) (PStr name) kw now s =
     (Inr (failure (''Unknown database operation: '' @ name)), s)"
  by (simp add: execute_operation_def operations_None unknown_operation_def)

lemma unpack_call_mapping:
  "find (\<lambda>k. k = ''self'' \<or> k = ''operation_name'') (map fst kw) = None \<Longrightarrow>
   unpack_call ops op_name (PDict kw) now s = execute_operation ops op_name kw now s"
  by (simp add: unpack_call_def)

lemma call_operation_handler_body:
  "find (\<lambda>k. k = ''self'' \<or> k = ''operation_name'') (map fst kw) = None \<Longrightarrow>
   call_operation_handler ops (Inr (PDict [(''tool'', op_name), (''params'', PDict kw)])) now s =
     (case execute_operation ops op_name kw now s of
        (Inl e, s') \<Rightarrow> (invalid_request e, s')
      | (Inr result, s') \<Rightarrow> (JSONResponse result 200, s'))"
  by (simp add: call_operation_handler_def unpack_call_mapping)

lemma call_operation_handler_unknown:
  assumes "name \<notin> set operation_names"
    and "find (\<lambda>k. k = ''self'' \<or> k = ''operation_name'') (map fst kw) = None"
  shows "call_operation_handler (operations other)
           (Inr (PDict [(''tool'', PStr name), (''params'', PDict kw)])) now s =
         (JSONResponse (failure (''Unknown database operation: '' @ name)) 200, s)"
  using assms by (simp add: call_operation_handler_body execute_operation_unknown)

lemma call_operation_handler_unknown_no_params:
  assumes "name \<notin> set operation_names"
  shows "call_operation_handler (operations other) (Inr (PDict [(''tool'', PStr name)])) now s =
         (JSONResponse (failure (''Unknown database operation: '' @ name)) 200, s)"
  using assms
  by (simp add: call_operation_handler_def unpack_call_def execute_operation_unknown)

lemma check_keywords_type_error:
  "check_keywords f names kw = Some e \<Longrightarrow> \<exists>msg. e = type_error msg"
  by (induction f names kw rule: check_keywords.induct) (auto split: if_splits)

lemma check_keywords_None:
  "check_keywords f names kw = None \<Longrightarrow> \<forall>k \<in> set (map fst kw). k \<in> set names"
  by (induction f names kw rule: check_keywords.induct) (auto split: if_splits)

lemma bind_arguments_mismatch:
  assumes "(\<exists>k \<in> set (map fst kw). k \<notin> set (required @ optional))
           \<or> (\<exists>p \<in> set required. p \<notin> set (map fst kw))"
  shows "\<exists>msg. bind_arguments f required optional kw = Some (type_error msg)"
proof (cases "check_keywords f (required @ optional) kw")
  case (Some e)
  then show ?thesis
    using check_keywords_type_error [OF Some] by (auto simp: bind_arguments_def)
next
  case None
  from check_keywords_None [OF None] assms
  have "\<exists>p \<in> set required. p \<notin> set (map fst kw)"
    by blast
  then have "filter (\<lambda>p. p \<notin> set (map fst kw)) required \<noteq> []"
    by (auto simp: filter_empty_conv)
  with None have "bind_arguments f required optional kw =
      Some (type_error
              (f @ ''() missing ''
                 @ str_nat (length (filter (\<lambda>p. p \<notin> set (map fst kw)) required))
                 @ '' required positional argument''
                 @ (if length (filter (\<lambda>p. p \<notin> set (map fst kw)) required) = 1
                    then [] else ''s'')
                 @ '': '' @ name_list (filter (\<lambda>p. p \<notin> set (map fst kw)) required)))"
    unfolding bind_arguments_def Let_def by simp
  then show ?thesis by blast
qed

lemma unbound_call:
  "bind_arguments ''DataAccessService._fetch_customer_record'' [''customer_id''] [] kw = Some e
     \<Longrightarrow> call_fetch_customer_record other kw now s = (Inl e, s)"
  "bind_arguments ''DataAccessService._search_customer_records'' [] [''status'', ''limit''] kw
       = Some e
     \<Longrightarrow> call_search_customer_records other kw now s = (Inl e, s)"
  "bind_arguments ''DataAccessService._modify_customer_details'' [''customer_id'', ''data''] [] kw
       = Some e
     \<Longrightarrow> call_modify_customer_details other kw now s = (Inl e, s)"
  "bind_arguments ''DataAccessService._register_new_ticket'' [''customer_id'', ''issue'']
       [''priority''] kw = Some e
     \<Longrightarrow> call_register_new_ticket other kw now s = (Inl e, s)"
  "bind_arguments ''DataAccessService._retrieve_ticket_history'' [''customer_id''] [] kw = Some e
     \<Longrightarrow> call_retrieve_ticket_history other kw now s = (Inl e, s)"
  by (simp_all add: call_fetch_customer_record_def call_search_customer_records_def
        call_modify_customer_details_def call_register_new_ticket_def
        call_retrieve_ticket_history_def)

lemma parameter_names_simps:
  "parameter_names ''get_customer'' = ([''customer_id''], [])"
  "parameter_names ''list_customers'' = ([], [''status'', ''limit''])"
  "parameter_names ''update_customer'' = ([''customer_id'', ''data''], [])"
  "parameter_names ''create_ticket'' = ([''customer_id'', ''issue''], [''priority''])"
  "parameter_names ''get_customer_history'' = ([''customer_id''], [])"
  by (simp_all add: parameter_names_def)

lemma operation_names_cases:
  assumes "name \<in> set operation_names"
  shows "name = ''get_customer'' \<or> name = ''list_customers'' \<or> name = ''update_customer''
    \<or> name = ''create_ticket'' \<or> name = ''get_customer_history''"
  using assms by (simp add: operation_names_def)

lemma get_customer_type_error:
  assumes name: "name = ''get_customer''"
    and "(\<exists>k \<in> set (map fst kw).
            k \<notin> set (fst (parameter_names name) @ snd (parameter_names name)))
         \<or> (\<exists>p \<in> set (fst (parameter_names name)). p \<notin> set (map fst kw))"
  shows "\<exists>h msg. operations other name = Some h \<and> h kw now s = (Inl (type_error msg), s)"
proof -
  have m: "(\<exists>k \<in> set (map fst kw). k \<notin> set ([''customer_id''] @ []))
           \<or> (\<exists>p \<in> set [''customer_id'']. p \<notin> set (map fst kw))"
    using assms(2) unfolding name parameter_names_simps fst_conv snd_conv .
  obtain msg where b: "bind_arguments ''DataAccessService._fetch_customer_record'' [''customer_id''] [] kw
                         = Some (type_error msg)"
    using bind_arguments_mismatch [OF m, where f = "''DataAccessService._fetch_customer_record''"] ..
  have c: "call_fetch_customer_record (other ''get_customer'') kw now s = (Inl (type_error msg), s)"
    using b by (rule unbound_call(1))
  have t: "operations other name = Some (call_fetch_customer_record (other ''get_customer''))"
    unfolding name by (rule operations_simps(1))
  from t c show ?thesis by (intro exI conjI)
qed

lemma list_customers_type_error:
  assumes name: "name = ''list_customers''"
    and "(\<exists>k \<in> set (map fst kw).
            k \<notin> set (fst (parameter_names name) @ snd (parameter_names name)))
         \<or> (\<exists>p \<in> set (fst (parameter_names name)). p \<notin> set (map fst kw))"
  shows "\<exists>h msg. operations other name = Some h \<and> h kw now s = (Inl (type_error msg), s)"
proof -
  have m: "(\<exists>k \<in> set (map fst kw). k \<notin> set ([] @ [''status'', ''limit'']))
           \<or> (\<exists>p \<in> set []. p \<notin> set (map fst kw))"
    using assms(2) unfolding name parameter_names_simps fst_conv snd_conv .
  obtain msg where b: "bind_arguments ''DataAccessService._search_customer_records'' [] [''status'', ''limit''] kw
                         = Some (type_error msg)"
    using bind_arguments_mismatch [OF m, where f = "''DataAccessService._search_customer_records''"] ..
  have c: "call_search_customer_records (other ''list_customers'') kw now s = (Inl (type_error msg), s)"
    using b by (rule unbound_call(2))
  have t: "operations other name = Some (call_search_customer_records (other ''list_customers''))"
    unfolding name by (rule operations_simps(2))
  from t c show ?thesis by (intro exI conjI)
qed

lemma update_customer_type_error:
  assumes name: "name = ''update_customer''"
    and "(\<exists>k \<in> set (map fst kw).
            k \<notin> set (fst (parameter_names name) @ snd (parameter_names name)))
         \<or> (\<exists>p \<in> set (fst (parameter_names name)). p \<notin> set (map fst kw))"
  shows "\<exists>h msg. operations other name = Some h \<and> h kw now s = (Inl (type_error msg), s)"
proof -
  have m: "(\<exists>k \<in> set (map fst kw). k \<notin> set ([''customer_id'', ''data''] @ []))
           \<or> (\<exists>p \<in> set [''customer_id'', ''data'']. p \<notin> set (map fst kw))"
    using assms(2) unfolding name parameter_names_simps fst_conv snd_conv .
  obtain msg where b: "bind_arguments ''DataAccessService._modify_customer_details'' [''customer_id'', ''data''] [] kw
                         = Some (type_error msg)"
    using bind_arguments_mismatch [OF m, where f = "''DataAccessService._modify_customer_details''"] ..
  have c: "call_modify_customer_details (other ''update_customer'') kw now s = (Inl (type_error msg), s)"
    using b by (rule unbound_call(3))
  have t: "operations other name = Some (call_modify_customer_details (other ''update_customer''))"
    unfolding name by (rule operations_simps(3))
  from t c show ?thesis by (intro exI conjI)
qed

lemma create_ticket_type_error:
  assumes name: "name = ''create_ticket''"
    and "(\<exists>k \<in> set (map fst kw).
            k \<notin> set (fst (parameter_names name) @ snd (parameter_names name)))
         \<or> (\<exists>p \<in> set (fst (parameter_names name)). p \<notin> set (map fst kw))"
  shows "\<exists>h msg. operations other name = Some h \<and> h kw now s = (Inl (type_error msg), s)"
proof -
  have m: "(\<exists>k \<in> set (map fst kw). k \<notin> set ([''customer_id'', ''issue''] @ [''priority'']))
           \<or> (\<exists>p \<in> set [''customer_id'', ''issue'']. p \<notin> set (map fst kw))"
    using assms(2) unfolding name parameter_names_simps fst_conv snd_conv .
  obtain msg where b: "bind_arguments ''DataAccessService._register_new_ticket'' [''customer_id'', ''issue''] [''priority''] kw
                         = Some (type_error msg)"
    using bind_arguments_mismatch [OF m, where f = "''DataAccessService._register_new_ticket''"] ..
  have c: "call_register_new_ticket (other ''create_ticket'') kw now s = (Inl (type_error msg), s)"
    using b by (rule unbound_call(4))
  have t: "operations other name = Some (call_register_new_ticket (other ''create_ticket''))"
    unfolding name by (rule operations_simps(4))
  from t c show ?thesis by (intro exI conjI)
qed

lemma get_customer_history_type_error:
  assumes name: "name = ''get_customer_history''"
    and "(\<exists>k \<in> set (map fst kw).
            k \<notin> set (fst (parameter_names name) @ snd (parameter_names name)))
         \<or> (\<exists>p \<in> set (fst (parameter_names name)). p \<notin> set (map fst kw))"
  shows "\<exists>h msg. operations other name = Some h \<and> h kw now s = (Inl (type_error msg), s)"
proof -
  have m: "(\<exists>k \<in> set (map fst kw). k \<notin> set ([''customer_id''] @ []))
           \<or> (\<exists>p \<in> set [''customer_id'']. p \<notin> set (map fst kw))"
    using assms(2) unfolding name parameter_names_simps fst_conv snd_conv .
  obtain msg where b: "bind_arguments ''DataAccessService._retrieve_ticket_history'' [''customer_id''] [] kw
                         = Some (type_error msg)"
    using bind_arguments_mismatch [OF m, where f = "''DataAccessService._retrieve_ticket_history''"] ..
  have c: "call_retrieve_ticket_history (other ''get_customer_history'') kw now s = (Inl (type_error msg), s)"
    using b by (rule unbound_call(5))
  have t: "operations other name = Some (call_retrieve_ticket_history (other ''get_customer_history''))"
    unfolding name by (rule operations_simps(5))
  from t c show ?thesis by (intro exI conjI)
qed

lemma handler_type_error:
  assumes "name \<in> set operation_names"
    and "(\<exists>k \<in> set (map fst kw).
            k \<notin> set (fst (parameter_names name) @ snd (parameter_names name)))
         \<or> (\<exists>p \<in> set (fst (parameter_names name)). p \<notin> set (map fst kw))"
  shows "\<exists>h msg. operations other name = Some h \<and> h kw now s = (Inl (type_error msg), s)"
  using operation_names_cases [OF assms(1)]
proof (elim disjE)
  assume "name = ''get_customer''"
  then show ?thesis using assms(2) by (rule get_customer_type_error)
next
  assume "name = ''list_customers''"
  then show ?thesis using assms(2) by (rule list_customers_type_error)
next
  assume "name = ''update_customer''"
  then show ?thesis using assms(2) by (rule update_customer_type_error)
next
  assume "name = ''create_ticket''"
  then show ?thesis using assms(2) by (rule create_ticket_type_error)
next
  assume "name = ''get_customer_history''"
  then show ?thesis using assms(2) by (rule get_customer_history_type_error)
qed

lemma call_operation_handler_type_error:
  assumes "name \<in> set operation_names"
    and "find (\<lambda>k. k = ''self'' \<or> k = ''operation_name'') (map fst kw) = None"
    and "(\<exists>k \<in> set (map fst kw).
            k \<notin> set (fst (parameter_names name) @ snd (parameter_names name)))
         \<or> (\<exists>p \<in> set (fst (parameter_names name)). p \<notin> set (map fst kw))"
  shows "\<exists>msg. call_operation_handler (operations other)
                 (Inr (PDict [(''tool'', PStr name), (''params'', PDict kw)])) now s =
               (JSONResponse (failure (''Operation execution failed: TypeError - '' @ msg)) 200, s)"
proof -
  from handler_type_error [OF assms(1,3), of other now s] obtain h msg where
    "operations other name = Some h" and "h kw now s = (Inl (type_error msg), s)"
    by blast
  then have "execute_operation (operations other) (PStr name) kw now s =
               (Inr (failure (''Operation execution failed: TypeError - '' @ msg)), s)"
    by (simp add: try_except execution_failed_def type_error_def)
  with assms(2) have "call_operation_handler (operations other)
                 (Inr (PDict [(''tool'', PStr name), (''params'', PDict kw)])) now s =
               (JSONResponse (failure (''Operation execution failed: TypeError - '' @ msg)) 200, s)"
    by (simp only: call_operation_handler_body) simp
  then show ?thesis by blast
qed

text \<open>The operations that write keep the primary key of \<^verbatim>\<open>customer_accounts\<close>.\<close>

lemma primary_key_map:
  assumes "primary_key s" and "\<And>r. identifier_col (g r) = identifier_col r"
  shows "primary_key (s\<lparr>accounts := map g (accounts s)\<rparr>)"
proof -
  have "map identifier_col (map g (accounts s)) = map identifier_col (accounts s)"
    by (simp add: assms(2))
  moreover have "list_all (\<lambda>r. fits_int64 (identifier_col r)) (map g (accounts s))
                   = list_all (\<lambda>r. fits_int64 (identifier_col r)) (accounts s)"
    by (simp add: list_all_iff assms(2))
  ultimately show ?thesis
    using assms(1) by (simp add: primary_key_def del: map_map)
qed

lemma modify_customer_details_primary_key:
  assumes "primary_key s"
  shows "primary_key (snd (modify_customer_details customer_id data_dict now s))"
proof -
  let ?U = "filter (\<lambda>(k, v). k \<in> set valid_fields) data_dict"
  show ?thesis
  proof (cases "?U = []")
    case True
    with assms show ?thesis by (simp add: modify_customer_details_def)
  next
    case False
    show ?thesis
    proof (cases "bind_parameters 1 (map snd ?U @ [PStr now, PInt customer_id])")
      case (Inl e)
      with False assms show ?thesis by (simp add: modify_customer_details_def)
    next
      case (Inr vals)
      let ?g = "\<lambda>r. if identifier_col r = customer_id
                    then update_row (zip (map fst ?U) vals) now r else r"
      have "primary_key (s\<lparr>accounts := map ?g (accounts s)\<rparr>)"
        using assms by (rule primary_key_map) (simp add: update_row_frame)
      with False Inr show ?thesis
        by (simp add: modify_customer_details_def Let_def split: option.splits)
    qed
  qed
qed

lemma register_new_ticket_primary_key:
  "primary_key s \<Longrightarrow> primary_key (snd (register_new_ticket customer_id issue priority now s))"
  by (simp add: register_new_ticket_def Let_def primary_key_def
        split: sum.splits option.splits)

section \<open>Creating a ticket with an invalid priority\<close>

text \<open>
  Claim C4. For every customer id, issue and priority string whose lower-case form is not
  one of low, medium, high, \<^verbatim>\<open>create_ticket\<close> returns the failure envelope
  (\<^verbatim>\<open>success\<close> is false) and the store after the call is the store before it: no ticket
  row is inserted, the rows and their number are unchanged.
\<close>

theorem create_ticket_invalid_priority:
  assumes "lower priority \<notin> {''low'', ''medium'', ''high''}"
  shows "create_ticket other customer_id issue priority now s =
           (Inr (failure ''Priority must be 'low', 'medium', or 'high'.''), s)
         \<and> \<not> success (failure ''Priority must be 'low', 'medium', or 'high'.'')
         \<and> tickets (snd (create_ticket other customer_id issue priority now s)) = tickets s"
  using assms by (simp add: create_ticket_unfold register_new_ticket_def)

text \<open>
  The hypothesis of C4 holds at the priority \<^verbatim>\<open>URGENT\<close>; on the seeded store the call is
  rejected and the store is left as it was.
\<close>

theorem create_ticket_invalid_priority_witness:
  "lower ''URGENT'' \<notin> {''low'', ''medium'', ''high''}
   \<and> create_ticket sample_other 1 ''Billing issue'' ''URGENT'' ''2025-06-01T12:00:00+00:00''
        (initialize_database_schema ''2025-01-01T00:00:00+00:00'') =
       (Inr (failure ''Priority must be 'low', 'medium', or 'high'.''),
        initialize_database_schema ''2025-01-01T00:00:00+00:00'')"
  using create_ticket_invalid_priority [of "''URGENT''" sample_other 1 "''Billing issue''"
      "''2025-06-01T12:00:00+00:00''" "initialize_database_schema ''2025-01-01T00:00:00+00:00''"]
  by (simp add: lower_def lower_char_def)

section \<open>Updating a customer with no whitelisted field\<close>

text \<open>
  Claim C2, as amended. For every customer id and every data mapping none of whose keys is
  in the whitelist, \<^verbatim>\<open>update_customer\<close> returns the failure envelope whose error text is
  \<^verbatim>\<open>No valid fields provided for update.\<close> (a text that begins with the words of the
  claim), and the store after the call is the store before it: every account row,
  \<^verbatim>\<open>last_modified_timestamp\<close> included, is unchanged.
\<close>

theorem update_customer_no_valid_fields:
  assumes "set (map fst data_dict) \<inter> set valid_fields = {}"
  shows "update_customer other customer_id data_dict now s =
           (Inr (failure ''No valid fields provided for update.''), s)
         \<and> \<not> success (failure ''No valid fields provided for update.'')
         \<and> prefix ''No valid fields provided'' ''No valid fields provided for update.''
         \<and> accounts (snd (update_customer other customer_id data_dict now s)) = accounts s"
proof -
  have "filter (\<lambda>(k, v). k \<in> set valid_fields) data_dict = []"
    using assms by (auto simp: filter_empty_conv)
  then show ?thesis
    by (simp add: update_customer_unfold modify_customer_details_def)
qed

text \<open>
  The hypothesis of C2 holds at a mapping with the keys \<^verbatim>\<open>nickname\<close> and
  \<^verbatim>\<open>identifier\<close>; on the seeded store nothing is written.
\<close>

theorem update_customer_no_valid_fields_witness:
  "set (map fst [(''nickname'', PStr ''Al''), (''identifier'', PInt 7)]) \<inter> set valid_fields = {}
   \<and> update_customer sample_other 1 [(''nickname'', PStr ''Al''), (''identifier'', PInt 7)]
        ''2025-06-01T12:00:00+00:00'' (initialize_database_schema ''2025-01-01T00:00:00+00:00'') =
       (Inr (failure ''No valid fields provided for update.''),
        initialize_database_schema ''2025-01-01T00:00:00+00:00'')"
  using update_customer_no_valid_fields [of "[(''nickname'', PStr ''Al''), (''identifier'', PInt 7)]"
      sample_other 1 "''2025-06-01T12:00:00+00:00''"
      "initialize_database_schema ''2025-01-01T00:00:00+00:00''"]
  by (simp add: valid_fields_def)

text \<open>
  Claim C2 as stated gives the error text \<^verbatim>\<open>No valid fields provided\<close>. The envelope
  of the code carries another text, so the result is not the envelope of the claim.
\<close>

theorem update_customer_error_text_counterexample:
  "fst (update_customer sample_other 1 [(''nickname'', PStr ''Al'')] ''2025-06-01T12:00:00+00:00''
          (initialize_database_schema ''2025-01-01T00:00:00+00:00''))
     \<noteq> Inr (failure ''No valid fields provided'')"
  by (simp add: update_customer_unfold modify_customer_details_def valid_fields_def failure_def)

section \<open>Reading a customer\<close>

text \<open>
  Claim C7. On a store whose identifiers are distinct 64-bit integers (the primary key),
  \<^verbatim>\<open>get_customer\<close> returns, for the identifier of a stored row, the success envelope
  with exactly that row and leaves the store alone; for an identifier that no row has it
  returns a failure envelope with an error text (naming the identifier, or the overflow
  of an identifier beyond 64 bits) and never an exception.
\<close>

theorem get_customer_found_or_not:
  assumes "primary_key s"
  shows "(\<forall>row \<in> set (accounts s). identifier_col row = customer_id \<longrightarrow>
            get_customer other customer_id now s = (Inr (single (Account row)), s))
         \<and> (customer_id \<notin> set (map identifier_col (accounts s)) \<longrightarrow>
            get_customer other customer_id now s =
              (Inr (failure
                 (if fits_int64 customer_id
                  then ''Account with ID '' @ str_int customer_id @ '' not found''
                  else ''Operation execution failed: OverflowError - ''
                         @ ''Python int too large to convert to SQLite INTEGER'')), s))"
proof (intro conjI ballI impI)
  fix row
  assume row: "row \<in> set (accounts s)" and id: "identifier_col row = customer_id"
  from assms row have fits: "fits_int64 (identifier_col row)"
    by (simp add: primary_key_def list_all_iff)
  from assms row have "find (\<lambda>r. identifier_col r = identifier_col row) (accounts s) = Some row"
    by (simp add: primary_key_def find_distinct_key)
  with fits id show "get_customer other customer_id now s = (Inr (single (Account row)), s)"
    by (auto simp: get_customer_unfold fetch_customer_record_def)
next
  assume "customer_id \<notin> set (map identifier_col (accounts s))"
  then have "find (\<lambda>r. identifier_col r = customer_id) (accounts s) = None"
    by (rule find_absent_key)
  then show "get_customer other customer_id now s =
              (Inr (failure
                 (if fits_int64 customer_id
                  then ''Account with ID '' @ str_int customer_id @ '' not found''
                  else ''Operation execution failed: OverflowError - ''
                         @ ''Python int too large to convert to SQLite INTEGER'')), s)"
    by (simp add: get_customer_unfold fetch_customer_record_def execution_failed_def
          overflow_error_def)
qed

text \<open>
  On the seeded store, account 2 is found with its stored values and account 99 is
  reported missing.
\<close>

theorem get_customer_found_or_not_witness:
  "primary_key (initialize_database_schema ''2025-01-01T00:00:00+00:00'')
   \<and> seed_account 2 ''Bob Standard'' ''bob@example.com'' ''222-222-2222'' ''active''
         ''2025-01-01T00:00:00+00:00''
       \<in> set (accounts (initialize_database_schema ''2025-01-01T00:00:00+00:00''))
   \<and> get_customer sample_other 2 ''2025-06-01T12:00:00+00:00''
         (initialize_database_schema ''2025-01-01T00:00:00+00:00'') =
       (Inr (single (Account (seed_account 2 ''Bob Standard'' ''bob@example.com'' ''222-222-2222''
                                ''active'' ''2025-01-01T00:00:00+00:00''))),
        initialize_database_schema ''2025-01-01T00:00:00+00:00'')
   \<and> 99 \<notin> set (map identifier_col
                    (accounts (initialize_database_schema ''2025-01-01T00:00:00+00:00'')))
   \<and> get_customer sample_other 99 ''2025-06-01T12:00:00+00:00''
         (initialize_database_schema ''2025-01-01T00:00:00+00:00'') =
       (Inr (failure ''Account with ID 99 not found''),
        initialize_database_schema ''2025-01-01T00:00:00+00:00'')"
proof -
  let ?S = "initialize_database_schema ''2025-01-01T00:00:00+00:00''"
  let ?bob = "seed_account 2 ''Bob Standard'' ''bob@example.com'' ''222-222-2222'' ''active''
                ''2025-01-01T00:00:00+00:00''"
  have pk: "primary_key ?S" by (rule primary_key_seeded)
  have member: "?bob \<in> set (accounts ?S)"
    by (simp add: initialize_database_schema_def)
  have ident: "identifier_col ?bob = 2"
    by (simp add: seed_account_def)
  have absent: "99 \<notin> set (map identifier_col (accounts ?S))"
    by (simp add: initialize_database_schema_def seed_account_def)
  have range: "fits_int64 99" by (simp add: fits_int64_def)
  have shown: "str_int 99 = ''99''"
    by (simp add: str_int_def str_nat.simps digit_char_def)
  from get_customer_found_or_not [OF pk, of 2 sample_other "''2025-06-01T12:00:00+00:00''"]
    member ident
  have found: "get_customer sample_other 2 ''2025-06-01T12:00:00+00:00'' ?S
                 = (Inr (single (Account ?bob)), ?S)"
    by blast
  from get_customer_found_or_not [OF pk, of 99 sample_other "''2025-06-01T12:00:00+00:00''"]
    absent range shown
  have missing: "get_customer sample_other 99 ''2025-06-01T12:00:00+00:00'' ?S
                   = (Inr (failure ''Account with ID 99 not found''), ?S)"
    by simp
  from pk member found absent missing show ?thesis by blast
qed

section \<open>The ticket history of a customer\<close>

text \<open>
  Claim C6, as amended. For every customer id in the signed 64-bit range,
  \<^verbatim>\<open>get_customer_history\<close> returns the success envelope whose data are exactly the
  ticket rows of that account (the same rows, each as often as the table has it), in
  descending order of \<^verbatim>\<open>submission_timestamp\<close>, with \<^verbatim>\<open>total_count\<close> the length of the
  list; when the account has no ticket the list is empty and the count is 0. The store
  is unchanged.
\<close>

theorem get_customer_history_sorted:
  assumes "fits_int64 customer_id"
  shows "get_customer_history other customer_id now s =
           (Inr (listing
                   (Tickets (order_by_desc (filter (\<lambda>t. account_id t = customer_id) (tickets s))))
                   (length (order_by_desc (filter (\<lambda>t. account_id t = customer_id) (tickets s))))),
            s)
         \<and> mset (order_by_desc (filter (\<lambda>t. account_id t = customer_id) (tickets s)))
             = mset (filter (\<lambda>t. account_id t = customer_id) (tickets s))
         \<and> sorted_wrt (\<lambda>a b. submission_timestamp b \<le> submission_timestamp a)
             (order_by_desc (filter (\<lambda>t. account_id t = customer_id) (tickets s)))
         \<and> (filter (\<lambda>t. account_id t = customer_id) (tickets s) = [] \<longrightarrow>
              get_customer_history other customer_id now s = (Inr (listing (Tickets []) 0), s))"
proof -
  have empty: "order_by_desc [] = []"
    by (simp add: order_by_desc_def)
  from assms show ?thesis
    by (simp add: get_customer_history_unfold retrieve_ticket_history_def Let_def
          mset_order_by_desc sorted_order_by_desc empty)
qed

text \<open>
  On the seeded store, account 12345 has the tickets 6 and 7 (equal timestamps, in scan
  order) and account 3 has none.
\<close>

theorem get_customer_history_sorted_witness:
  "fits_int64 12345
   \<and> get_customer_history sample_other 12345 ''2025-06-01T12:00:00+00:00''
        (initialize_database_schema ''2025-01-01T00:00:00+00:00'') =
       (Inr (listing
               (Tickets
                  [seed_ticket 6 12345 ''Account upgrade assistance'' ''open'' ''medium''
                     ''2025-01-01T00:00:00+00:00'',
                   seed_ticket 7 12345 ''High priority refund review'' ''open'' ''high''
                     ''2025-01-01T00:00:00+00:00'']) 2),
        initialize_database_schema ''2025-01-01T00:00:00+00:00'')
   \<and> fits_int64 3
   \<and> filter (\<lambda>t. account_id t = 3)
         (tickets (initialize_database_schema ''2025-01-01T00:00:00+00:00'')) = []
   \<and> get_customer_history sample_other 3 ''2025-06-01T12:00:00+00:00''
        (initialize_database_schema ''2025-01-01T00:00:00+00:00'') =
       (Inr (listing (Tickets []) 0), initialize_database_schema ''2025-01-01T00:00:00+00:00'')"
proof -
  let ?S = "initialize_database_schema ''2025-01-01T00:00:00+00:00''"
  let ?t6 = "seed_ticket 6 12345 ''Account upgrade assistance'' ''open'' ''medium''
               ''2025-01-01T00:00:00+00:00''"
  let ?t7 = "seed_ticket 7 12345 ''High priority refund review'' ''open'' ''high''
               ''2025-01-01T00:00:00+00:00''"
  have r1: "fits_int64 12345" and r2: "fits_int64 3"
    by (simp_all add: fits_int64_def)
  have f1: "filter (\<lambda>t. account_id t = 12345) (tickets ?S) = [?t6, ?t7]"
    by (simp add: initialize_database_schema_def seed_ticket_def)
  have f2: "filter (\<lambda>t. account_id t = 3) (tickets ?S) = []"
    by (simp add: initialize_database_schema_def seed_ticket_def)
  have o1: "order_by_desc [?t6, ?t7] = [?t6, ?t7]"
    by (simp add: order_by_desc_def seed_ticket_def)
  from get_customer_history_sorted [OF r1, of sample_other "''2025-06-01T12:00:00+00:00''" ?S]
  have h1: "get_customer_history sample_other 12345 ''2025-06-01T12:00:00+00:00'' ?S
              = (Inr (listing (Tickets [?t6, ?t7]) 2), ?S)"
    by (simp add: f1 o1)
  from get_customer_history_sorted [OF r2, of sample_other "''2025-06-01T12:00:00+00:00''" ?S] f2
  have h2: "get_customer_history sample_other 3 ''2025-06-01T12:00:00+00:00'' ?S
              = (Inr (listing (Tickets []) 0), ?S)"
    by blast
  from r1 r2 f2 h1 h2 show ?thesis by blast
qed

text \<open>
  Claim C6 as stated covers every customer id and promises that the call never fails. An
  id of \<open>2^63\<close> cannot be bound to an SQLite INTEGER: the handler raises
  \<^verbatim>\<open>OverflowError\<close> and the dispatcher returns a failure envelope.
\<close>

theorem get_customer_history_overflow_counterexample:
  "get_customer_history sample_other 9223372036854775808 ''2025-06-01T12:00:00+00:00''
     (initialize_database_schema ''2025-01-01T00:00:00+00:00'') =
   (Inr (failure (''Operation execution failed: OverflowError - ''
                    @ ''Python int too large to convert to SQLite INTEGER'')),
    initialize_database_schema ''2025-01-01T00:00:00+00:00'')"
  by (simp add: get_customer_history_unfold retrieve_ticket_history_def fits_int64_def
        execution_failed_def overflow_error_def)

section \<open>Creating a ticket\<close>

text \<open>
  Claim C3, as amended. For every customer id in the signed 64-bit range, every issue
  without a lone surrogate and every priority string whose lower-case form is low,
  medium or high, and while the table has a ticket id left (\<open>next_ticket_id\<close> yields
  one), \<^verbatim>\<open>create_ticket\<close> returns the success envelope with the new row: its \<^verbatim>\<open>status\<close>
  is \<^verbatim>\<open>open\<close>, its \<^verbatim>\<open>priority_level\<close> the lower-cased priority, its id an id no ticket
  had. The tickets after the call are the tickets before it followed by that one row;
  nothing else of the store changes but the id counter. The reading of the clock is the
  text of \<^verbatim>\<open>isoformat()\<close>, which has no surrogate.
\<close>

theorem create_ticket_inserts_one_row:
  assumes "fits_int64 customer_id"
    and "\<not> has_surrogate issue"
    and "lower priority \<in> {''low'', ''medium'', ''high''}"
    and "\<not> has_surrogate now"
    and "next_ticket_id s = Inr new_ticket_id"
  shows "create_ticket other customer_id issue priority now s =
           (Inr (single (Ticket
                   \<lparr>ticket_id = new_ticket_id, account_id = customer_id, description = issue,
                    status = ''open'', priority_level = lower priority,
                    submission_timestamp = now\<rparr>)),
            s\<lparr>tickets := tickets s @
                  [\<lparr>ticket_id = new_ticket_id, account_id = customer_id, description = issue,
                    status = ''open'', priority_level = lower priority,
                    submission_timestamp = now\<rparr>],
               ticket_seq := new_ticket_id\<rparr>)
         \<and> new_ticket_id \<notin> set (map ticket_id (tickets s))"
proof -
  let ?row = "\<lparr>ticket_id = new_ticket_id, account_id = customer_id, description = issue,
               status = ''open'', priority_level = lower priority, submission_timestamp = now\<rparr>"
  from assms(5) have fresh: "\<forall>t \<in> set (tickets s). \<not> ticket_id t = new_ticket_id"
    by (rule next_ticket_id_fresh)
  then have found: "find (\<lambda>t. ticket_id t = new_ticket_id) (tickets s @ [?row]) = Some ?row"
    by (intro find_snoc_fresh) simp_all
  from fresh have "new_ticket_id \<notin> set (map ticket_id (tickets s))"
    by auto
  moreover from assms found
  have "create_ticket other customer_id issue priority now s =
          (Inr (single (Ticket ?row)),
           s\<lparr>tickets := tickets s @ [?row], ticket_seq := new_ticket_id\<rparr>)"
    by (auto simp: create_ticket_unfold register_new_ticket_def Let_def)
  ultimately show ?thesis by simp
qed

text \<open>
  On the seeded store, a ticket for account 1 with priority \<^verbatim>\<open>HIGH\<close> becomes ticket 8
  with priority \<^verbatim>\<open>high\<close>.
\<close>

theorem create_ticket_inserts_one_row_witness:
  "fits_int64 1
   \<and> \<not> has_surrogate ''Billing issue''
   \<and> lower ''HIGH'' \<in> {''low'', ''medium'', ''high''}
   \<and> \<not> has_surrogate ''2025-06-01T12:00:00+00:00''
   \<and> next_ticket_id (initialize_database_schema ''2025-01-01T00:00:00+00:00'') = Inr 8
   \<and> create_ticket sample_other 1 ''Billing issue'' ''HIGH'' ''2025-06-01T12:00:00+00:00''
        (initialize_database_schema ''2025-01-01T00:00:00+00:00'') =
       (Inr (single (Ticket
               \<lparr>ticket_id = 8, account_id = 1, description = ''Billing issue'',
                status = ''open'', priority_level = ''high'',
                submission_timestamp = ''2025-06-01T12:00:00+00:00''\<rparr>)),
        (initialize_database_schema ''2025-01-01T00:00:00+00:00'')
          \<lparr>tickets := tickets (initialize_database_schema ''2025-01-01T00:00:00+00:00'') @
                [\<lparr>ticket_id = 8, account_id = 1, description = ''Billing issue'',
                  status = ''open'', priority_level = ''high'',
                  submission_timestamp = ''2025-06-01T12:00:00+00:00''\<rparr>],
            ticket_seq := 8\<rparr>)"
proof -
  let ?S = "initialize_database_schema ''2025-01-01T00:00:00+00:00''"
  have r: "fits_int64 1" by (simp add: fits_int64_def)
  have l: "lower ''HIGH'' = ''high''" by (simp add: lower_def lower_char_def)
  then have p: "lower ''HIGH'' \<in> {''low'', ''medium'', ''high''}" by simp
  have i: "\<not> has_surrogate ''Billing issue''" by simp
  have t: "\<not> has_surrogate ''2025-06-01T12:00:00+00:00''" by simp
  have n: "next_ticket_id ?S = Inr 8" by (rule next_ticket_id_seeded)
  have c: "create_ticket sample_other 1 ''Billing issue'' ''HIGH'' ''2025-06-01T12:00:00+00:00'' ?S =
       (Inr (single (Ticket
               \<lparr>ticket_id = 8, account_id = 1, description = ''Billing issue'',
                status = ''open'', priority_level = ''high'',
                submission_timestamp = ''2025-06-01T12:00:00+00:00''\<rparr>)),
        ?S\<lparr>tickets := tickets ?S @
                [\<lparr>ticket_id = 8, account_id = 1, description = ''Billing issue'',
                  status = ''open'', priority_level = ''high'',
                  submission_timestamp = ''2025-06-01T12:00:00+00:00''\<rparr>],
            ticket_seq := 8\<rparr>)"
    using create_ticket_inserts_one_row [OF r i p t n, of sample_other]
    by (simp add: l)
  from r i p t n c show ?thesis by blast
qed

text \<open>
  Claim C3 as stated covers every customer id and every issue string. An id of \<open>2^63\<close>
  cannot be bound to an SQLite INTEGER: the INSERT raises \<^verbatim>\<open>OverflowError\<close>. An issue
  with a lone surrogate (the JSON text \<^verbatim>\<open>"Billing \ud800"\<close>) cannot be encoded as UTF-8:
  the INSERT raises \<^verbatim>\<open>UnicodeEncodeError\<close>. On a database whose ticket counter stands at
  \<open>2^63 - 1\<close> no id is left: the INSERT raises \<^verbatim>\<open>sqlite3.OperationalError\<close>. Each time
  the dispatcher returns a failure envelope and no row is inserted.
\<close>

theorem create_ticket_rejected_counterexample:
  "create_ticket sample_other 9223372036854775808 ''Billing issue'' ''high''
     ''2025-06-01T12:00:00+00:00'' (initialize_database_schema ''2025-01-01T00:00:00+00:00'') =
   (Inr (failure (''Operation execution failed: OverflowError - ''
                    @ ''Python int too large to convert to SQLite INTEGER'')),
    initialize_database_schema ''2025-01-01T00:00:00+00:00'')
   \<and> create_ticket sample_other 1 (''Billing '' @ [CHR 0xED, CHR 0xA0, CHR 0x80]) ''high''
       ''2025-06-01T12:00:00+00:00'' (initialize_database_schema ''2025-01-01T00:00:00+00:00'') =
     (Inr (failure (''Operation execution failed: UnicodeEncodeError - ''
                      @ quote ''utf-8'' @ '' codec can't encode character ''
                      @ quote ([CHR 0x5C] @ ''ud800'')
                      @ '' in position 8: surrogates not allowed'')),
      initialize_database_schema ''2025-01-01T00:00:00+00:00'')
   \<and> create_ticket sample_other 1 ''Billing issue'' ''high'' ''2025-06-01T12:00:00+00:00''
       ((initialize_database_schema ''2025-01-01T00:00:00+00:00'')
          \<lparr>ticket_seq := 9223372036854775807\<rparr>) =
     (Inr (failure ''Operation execution failed: OperationalError - database or disk is full''),
      (initialize_database_schema ''2025-01-01T00:00:00+00:00'')
        \<lparr>ticket_seq := 9223372036854775807\<rparr>)"
proof -
  let ?S = "initialize_database_schema ''2025-01-01T00:00:00+00:00''"
  have a: "create_ticket sample_other 9223372036854775808 ''Billing issue'' ''high''
             ''2025-06-01T12:00:00+00:00'' ?S =
           (Inr (failure (''Operation execution failed: OverflowError - ''
                            @ ''Python int too large to convert to SQLite INTEGER'')), ?S)"
    by (simp add: create_ticket_unfold register_new_ticket_def fits_int64_def lower_def
          lower_char_def execution_failed_def overflow_error_def)
  have b: "create_ticket sample_other 1 (''Billing '' @ [CHR 0xED, CHR 0xA0, CHR 0x80]) ''high''
             ''2025-06-01T12:00:00+00:00'' ?S =
           (Inr (failure (''Operation execution failed: UnicodeEncodeError - ''
                            @ quote ''utf-8'' @ '' codec can't encode character ''
                            @ quote ([CHR 0x5C] @ ''ud800'')
                            @ '' in position 8: surrogates not allowed'')), ?S)"
    by (simp add: create_ticket_unfold register_new_ticket_def fits_int64_def lower_def
          lower_char_def execution_failed_def unicode_encode_error_def surrogate_lead_def
          continuation_def surrogate_escape_def hex_char_def quote_def str_nat.simps
          digit_char_def Let_def)
  have c: "create_ticket sample_other 1 ''Billing issue'' ''high'' ''2025-06-01T12:00:00+00:00''
             (?S\<lparr>ticket_seq := 9223372036854775807\<rparr>) =
           (Inr (failure ''Operation execution failed: OperationalError - database or disk is full''),
            ?S\<lparr>ticket_seq := 9223372036854775807\<rparr>)"
    by (simp add: create_ticket_unfold register_new_ticket_def fits_int64_def lower_def
          lower_char_def execution_failed_def next_ticket_id_def
          initialize_database_schema_def seed_ticket_def Let_def)
  from a b c show ?thesis by (intro conjI)
qed

section \<open>A successful update of a customer\<close>

text \<open>
  Claim C5, as amended. Let the data mapping be a dictionary (distinct keys), the store
  satisfy the primary key, and \<open>old\<close> be the stored row of the customer. When
  \<^verbatim>\<open>update_customer\<close> succeeds, its envelope carries the row \<open>new\<close> that replaces \<open>old\<close>;
  every other account row and every ticket is unchanged. In \<open>new\<close> the identifier and
  \<^verbatim>\<open>creation_timestamp\<close> are those of \<open>old\<close>, \<^verbatim>\<open>last_modified_timestamp\<close> is the clock
  reading of the call, each whitelisted column that is a key of the mapping holds the
  given value as SQLite stores it in a TEXT column (a string as it is, null as NULL, an
  integer or a boolean as its decimal text), and each whitelisted column that is no key
  keeps its value. Keys outside the whitelist are ignored: the call with the mapping
  restricted to the whitelist has the same result.
\<close>

theorem update_customer_success_frame:
  assumes "distinct (map fst data_dict)"
    and "primary_key s"
    and "old \<in> set (accounts s)"
    and "identifier_col old = customer_id"
    and "update_customer other customer_id data_dict now s = (Inr env, s')"
    and "success env"
  shows "\<exists>new. env = single (Account new)
           \<and> accounts s' =
               map (\<lambda>r. if identifier_col r = customer_id then new else r) (accounts s)
           \<and> tickets s' = tickets s \<and> ticket_seq s' = ticket_seq s
           \<and> identifier_col new = identifier_col old
           \<and> creation_timestamp new = creation_timestamp old
           \<and> last_modified_timestamp new = now
           \<and> (\<forall>k \<in> set valid_fields.
                 column k new =
                   (case map_of data_dict k of
                      None \<Rightarrow> column k old
                    | Some v \<Rightarrow> stored_text v))
           \<and> update_customer other customer_id
                 (filter (\<lambda>(k, v). k \<in> set valid_fields) data_dict) now s = (Inr env, s')"
proof -
  from assms(5,6) have call: "modify_customer_details customer_id data_dict now s = (Inr env, s')"
    by (auto simp: update_customer_unfold execution_failed_def split: prod.splits sum.splits)
  have "update_customer other customer_id
          (filter (\<lambda>(k, v). k \<in> set valid_fields) data_dict) now s = (Inr env, s')"
    by (simp add: update_customer_unfold modify_customer_details_whitelist call)
  with modify_customer_details_frame [OF assms(1-4) call assms(6)] show ?thesis
    by blast
qed

text \<open>
  On the seeded store, account 1 receives a new \<^verbatim>\<open>contact_email\<close>; the key
  \<^verbatim>\<open>nickname\<close> is ignored, the other columns and the other rows stay.
\<close>

theorem update_customer_success_frame_witness:
  "distinct (map fst [(''contact_email'', PStr ''new@email.com''), (''nickname'', PStr ''Al'')])
   \<and> primary_key (initialize_database_schema ''2025-01-01T00:00:00+00:00'')
   \<and> seed_account 1 ''Alice Premium'' ''alice@example.com'' ''111-111-1111'' ''active''
         ''2025-01-01T00:00:00+00:00''
       \<in> set (accounts (initialize_database_schema ''2025-01-01T00:00:00+00:00''))
   \<and> identifier_col (seed_account 1 ''Alice Premium'' ''alice@example.com'' ''111-111-1111''
                        ''active'' ''2025-01-01T00:00:00+00:00'') = 1
   \<and> fst (update_customer sample_other 1
             [(''contact_email'', PStr ''new@email.com''), (''nickname'', PStr ''Al'')]
             ''2025-06-01T12:00:00+00:00''
             (initialize_database_schema ''2025-01-01T00:00:00+00:00'')) =
       Inr (single (Account
              \<lparr>identifier_col = 1, full_name = Some ''Alice Premium'',
               contact_email = Some ''new@email.com'', contact_phone = Some ''111-111-1111'',
               account_status = Some ''active'',
               creation_timestamp = ''2025-01-01T00:00:00+00:00'',
               last_modified_timestamp = ''2025-06-01T12:00:00+00:00''\<rparr>))
   \<and> success (single (Account
              \<lparr>identifier_col = 1, full_name = Some ''Alice Premium'',
               contact_email = Some ''new@email.com'', contact_phone = Some ''111-111-1111'',
               account_status = Some ''active'',
               creation_timestamp = ''2025-01-01T00:00:00+00:00'',
               last_modified_timestamp = ''2025-06-01T12:00:00+00:00''\<rparr>))
   \<and> map identifier_col
         (accounts (snd (update_customer sample_other 1
             [(''contact_email'', PStr ''new@email.com''), (''nickname'', PStr ''Al'')]
             ''2025-06-01T12:00:00+00:00''
             (initialize_database_schema ''2025-01-01T00:00:00+00:00''))))
       = [1, 2, 3, 4, 5, 12345]"
proof -
  let ?S = "initialize_database_schema ''2025-01-01T00:00:00+00:00''"
  let ?d = "[(''contact_email'', PStr ''new@email.com''), (''nickname'', PStr ''Al'')]"
  let ?alice = "seed_account 1 ''Alice Premium'' ''alice@example.com'' ''111-111-1111'' ''active''
                  ''2025-01-01T00:00:00+00:00''"
  let ?new = "\<lparr>identifier_col = 1, full_name = Some ''Alice Premium'',
               contact_email = Some ''new@email.com'', contact_phone = Some ''111-111-1111'',
               account_status = Some ''active'',
               creation_timestamp = ''2025-01-01T00:00:00+00:00'',
               last_modified_timestamp = ''2025-06-01T12:00:00+00:00''\<rparr>"
  let ?call = "update_customer sample_other 1 ?d ''2025-06-01T12:00:00+00:00'' ?S"
  have d: "distinct (map fst ?d)" by simp
  have pk: "primary_key ?S" by (rule primary_key_seeded)
  have member: "?alice \<in> set (accounts ?S)"
    by (simp add: initialize_database_schema_def)
  have ident: "identifier_col ?alice = 1"
    by (simp add: seed_account_def)
  have res: "fst ?call = Inr (single (Account ?new))"
    by (simp add: update_customer_unfold modify_customer_details_def valid_fields_def
          initialize_database_schema_def seed_account_def update_row_def set_column_def
          fits_int64_def)
  then have call: "?call = (Inr (single (Account ?new)), snd ?call)"
    by (metis prod.collapse)
  have ok: "success (single (Account ?new))" by simp
  from update_customer_success_frame [OF d pk member ident call ok]
  obtain new where "accounts (snd ?call)
      = map (\<lambda>r. if identifier_col r = 1 then new else r) (accounts ?S)"
    and "identifier_col new = identifier_col ?alice"
    by blast
  then have "map identifier_col (accounts (snd ?call)) = [1, 2, 3, 4, 5, 12345]"
    by (simp add: initialize_database_schema_def seed_account_def)
  with d pk member ident res ok show ?thesis by blast
qed

text \<open>
  Claim C5 as stated makes the new \<^verbatim>\<open>last_modified_timestamp\<close> strictly greater than
  the previous one. The code writes the reading of the wall clock, whatever it is: when
  the clock has been set back a quarter of a second since the row was written, the update
  succeeds and the new timestamp is not greater than the old one.
\<close>

theorem update_customer_clock_counterexample:
  "fst (update_customer sample_other 1 [(''contact_email'', PStr ''new@email.com'')]
          ''2025-06-01T11:59:59.750000+00:00''
          (initialize_database_schema ''2025-06-01T12:00:00+00:00'')) =
     Inr (single (Account
            \<lparr>identifier_col = 1, full_name = Some ''Alice Premium'',
             contact_email = Some ''new@email.com'', contact_phone = Some ''111-111-1111'',
             account_status = Some ''active'',
             creation_timestamp = ''2025-06-01T12:00:00+00:00'',
             last_modified_timestamp = ''2025-06-01T11:59:59.750000+00:00''\<rparr>))
   \<and> \<not> (last_modified_timestamp
           (seed_account 1 ''Alice Premium'' ''alice@example.com'' ''111-111-1111'' ''active''
              ''2025-06-01T12:00:00+00:00'')
         < ''2025-06-01T11:59:59.750000+00:00'')"
  by (simp add: update_customer_unfold modify_customer_details_def valid_fields_def
        initialize_database_schema_def seed_account_def update_row_def set_column_def
        fits_int64_def)

section \<open>The dispatcher and the exceptions of its handlers\<close>

text \<open>
  Once the body of \<^verbatim>\<open>execute_operation\<close> runs with a name of the operation table and a
  keyword mapping, it returns an envelope and never an exception; when the handler
  raises \<open>e\<close>, the envelope is the failure with the text
  \<^verbatim>\<open>Operation execution failed: <kind> - <message>\<close> of \<open>e\<close>, and when the handler returns,
  its envelope is passed on. This holds whatever the handlers do on arguments outside
  their declared types.
\<close>

lemma execute_operation_catches:
  assumes "name \<in> set operation_names"
  shows "(\<exists>env s'. execute_operation (operations other) (PStr name) kw now s = (Inr env, s'))
         \<and> (\<forall>h e s'. operations other name = Some h \<and> h kw now s = (Inl e, s') \<longrightarrow>
               execute_operation (operations other) (PStr name) kw now s =
                 (Inr (failure (''Operation execution failed: '' @ kind e @ '' - '' @ message e)),
                  s'))
         \<and> (\<forall>h r s'. operations other name = Some h \<and> h kw now s = (Inr r, s') \<longrightarrow>
               execute_operation (operations other) (PStr name) kw now s = (Inr r, s'))"
proof -
  from assms obtain h where h: "operations other name = Some h"
    using operations_Some by blast
  obtain r s1 where run: "h kw now s = (r, s1)"
    by (cases "h kw now s")
  have "\<exists>env s'. execute_operation (operations other) (PStr name) kw now s = (Inr env, s')"
    by (cases r) (simp_all add: try_except [where ops = "operations other", OF h] run)
  moreover have "\<forall>h' e s'. operations other name = Some h' \<and> h' kw now s = (Inl e, s') \<longrightarrow>
      execute_operation (operations other) (PStr name) kw now s =
        (Inr (failure (''Operation execution failed: '' @ kind e @ '' - '' @ message e)), s')"
    by (auto simp: try_except execution_failed_def)
  moreover have "\<forall>h' r' s'. operations other name = Some h' \<and> h' kw now s = (Inr r', s') \<longrightarrow>
      execute_operation (operations other) (PStr name) kw now s = (Inr r', s')"
    by (auto simp: try_except)
  ultimately show ?thesis by blast
qed

text \<open>
  A call of \<^verbatim>\<open>get_customer\<close> without arguments: the handler raises a \<^verbatim>\<open>TypeError\<close> for
  the missing \<^verbatim>\<open>customer_id\<close> and the dispatcher returns the failure envelope.
\<close>

lemma execute_operation_missing_argument:
  "''get_customer'' \<in> set operation_names
   \<and> operations sample_other ''get_customer''
       = Some (call_fetch_customer_record (sample_other ''get_customer''))
   \<and> call_fetch_customer_record (sample_other ''get_customer'') [] ''2025-06-01T12:00:00+00:00''
         (initialize_database_schema ''2025-01-01T00:00:00+00:00'') =
       (Inl (Exn ''TypeError''
               (''DataAccessService._fetch_customer_record() missing 1 required positional ''
                  @ ''argument: '' @ quote ''customer_id'')),
        initialize_database_schema ''2025-01-01T00:00:00+00:00'')
   \<and> execute_operation (operations sample_other) (PStr ''get_customer'') []
         ''2025-06-01T12:00:00+00:00'' (initialize_database_schema ''2025-01-01T00:00:00+00:00'') =
       (Inr (failure
               (''Operation execution failed: TypeError - ''
                  @ ''DataAccessService._fetch_customer_record() missing 1 required positional ''
                  @ ''argument: '' @ quote ''customer_id'')),
        initialize_database_schema ''2025-01-01T00:00:00+00:00'')"
proof -
  let ?S = "initialize_database_schema ''2025-01-01T00:00:00+00:00''"
  let ?h = "call_fetch_customer_record (sample_other ''get_customer'')"
  let ?e = "Exn ''TypeError''
              (''DataAccessService._fetch_customer_record() missing 1 required positional ''
                 @ ''argument: '' @ quote ''customer_id'')"
  have n: "''get_customer'' \<in> set operation_names"
    by (simp add: operation_names_def)
  have h: "operations sample_other ''get_customer'' = Some ?h"
    by (simp add: operations_simps)
  have raised: "?h [] ''2025-06-01T12:00:00+00:00'' ?S = (Inl ?e, ?S)"
    by (simp add: call_fetch_customer_record_def bind_arguments_def type_error_def name_list_def
          str_nat.simps digit_char_def)
  from execute_operation_catches [OF n, of sample_other "[]" "''2025-06-01T12:00:00+00:00''" ?S]
    h raised
  have "execute_operation (operations sample_other) (PStr ''get_customer'') []
          ''2025-06-01T12:00:00+00:00'' ?S =
        (Inr (failure (''Operation execution failed: '' @ kind ?e @ '' - '' @ message ?e)), ?S)"
    by blast
  with n h raised show ?thesis by simp
qed

text \<open>
  Claim C1. When the handler of a recognized operation raises, \<^verbatim>\<open>execute_operation\<close>
  returns the failure \<^verbatim>\<open>Operation execution failed: <kind> - <message>\<close>
  (\<open>execute_operation_catches\<close>), and the claim adds that no invocation of an operation,
  for any parameter mapping, propagates an exception to the caller. At the mapping
  with the key \<^verbatim>\<open>operation_name\<close> the code does otherwise: the invocation
  \<^verbatim>\<open>execute_operation("get_customer", **{"operation_name": "x"})\<close> raises a \<^verbatim>\<open>TypeError\<close>
  while its arguments are bound, before the \<^verbatim>\<open>try\<close> of the body is entered, and the
  exception reaches the caller.
\<close>

theorem execute_operation_reserved_key:
  "unpack_call (operations sample_other) (PStr ''get_customer'')
     (PDict [(''operation_name'', PStr ''x'')])
     ''2025-06-01T12:00:00+00:00'' (initialize_database_schema ''2025-01-01T00:00:00+00:00'') =
   (Inl (Exn ''TypeError''
           (''DataAccessService.execute_operation() got multiple values for argument ''
              @ quote ''operation_name'')),
    initialize_database_schema ''2025-01-01T00:00:00+00:00'')"
  by (simp add: unpack_call_def type_error_def)

section \<open>Unknown operations\<close>

text \<open>
  Claim C8. For a name outside the operation table, \<^verbatim>\<open>execute_operation\<close> returns the
  failure \<^verbatim>\<open>Unknown database operation: <name>\<close> and leaves the store alone
  (\<open>execute_operation_unknown\<close>), and \<^verbatim>\<open>POST /call\<close> answers with that envelope and status
  200 when the body has no parameters or parameters without the keys \<^verbatim>\<open>self\<close> and
  \<^verbatim>\<open>operation_name\<close> (\<open>call_operation_handler_unknown\<close>,
  \<open>call_operation_handler_unknown_no_params\<close>). The claim covers every parameter
  mapping; at the mapping with the key \<^verbatim>\<open>operation_name\<close> the code does otherwise: the
  call of \<^verbatim>\<open>execute_operation\<close> raises while binding its arguments, and the endpoint
  answers with status 400 and the text of an invalid request.
\<close>

theorem call_operation_handler_unknown_reserved_key:
  "call_operation_handler (operations sample_other)
     (Inr (PDict [(''tool'', PStr ''nonexistent_op''),
                  (''params'', PDict [(''operation_name'', PStr ''x'')])]))
     ''2025-06-01T12:00:00+00:00'' (initialize_database_schema ''2025-01-01T00:00:00+00:00'') =
   (JSONResponse
      (failure (''Invalid request format: DataAccessService.execute_operation() got multiple ''
                  @ ''values for argument '' @ quote ''operation_name'')) 400,
    initialize_database_schema ''2025-01-01T00:00:00+00:00'')"
  by (simp add: call_operation_handler_def unpack_call_def invalid_request_def type_error_def)

section \<open>Parameters that do not fit the handler\<close>

text \<open>
  Claim C10. For a name of the operation table and parameters without the keys
  \<^verbatim>\<open>self\<close> and \<^verbatim>\<open>operation_name\<close>, a key that the handler does not declare or a missing
  required parameter makes \<^verbatim>\<open>POST /call\<close> answer with status 200 and the failure
  \<^verbatim>\<open>Operation execution failed: TypeError - <message>\<close>, the store untouched
  (\<open>call_operation_handler_type_error\<close>). The claim covers every unexpected key; at the
  unexpected key \<^verbatim>\<open>operation_name\<close> the code does otherwise: the \<^verbatim>\<open>TypeError\<close> is raised
  by the call of \<^verbatim>\<open>execute_operation\<close> itself, outside its \<^verbatim>\<open>try\<close>, and the endpoint
  answers with status 400 and the text of an invalid request.
\<close>

theorem call_operation_handler_known_reserved_key:
  "call_operation_handler (operations sample_other)
     (Inr (PDict [(''tool'', PStr ''get_customer''),
                  (''params'', PDict [(''operation_name'', PStr ''x'')])]))
     ''2025-06-01T12:00:00+00:00'' (initialize_database_schema ''2025-01-01T00:00:00+00:00'') =
   (JSONResponse
      (failure (''Invalid request format: DataAccessService.execute_operation() got multiple ''
                  @ ''values for argument '' @ quote ''operation_name'')) 400,
    initialize_database_schema ''2025-01-01T00:00:00+00:00'')"
  by (simp add: call_operation_handler_def unpack_call_def invalid_request_def type_error_def)

section \<open>The adapter and a payload that is not JSON\<close>

text \<open>
  For every customer id and every payload on which \<^verbatim>\<open>json.loads\<close> raises
  \<^verbatim>\<open>JSONDecodeError\<close>, \<^verbatim>\<open>modify_customer_record\<close> returns the parsing-error text and the
  network is in the state it was in, for every transport \<open>post\<close>: no request has been
  sent. In particular, with the server behind the transport, the list of requests that
  reached it and its store are unchanged.
\<close>

lemma modify_customer_record_parse_failure:
  assumes "loads update_payload = Inl e"
    and "kind e = ''JSONDecodeError''"
  shows "modify_customer_record loads dumps repr post customer_id update_payload w =
           (Inr ''Parsing Error: The provided data for update must be a valid JSON string.'', w)
         \<and> requests (snd (modify_customer_record loads dumps repr (rpc_post other) customer_id
                             update_payload net)) = requests net
         \<and> server_store (snd (modify_customer_record loads dumps repr (rpc_post other)
                                 customer_id update_payload net)) = server_store net"
  using assms by (simp add: modify_customer_record_def)

text \<open>
  The payload \<^verbatim>\<open>not json\<close>, with a decoder that rejects it as \<^verbatim>\<open>json.loads\<close> does, and
  the seeded server behind the transport.
\<close>

lemma modify_customer_record_not_json:
  "(\<lambda>p. if p = ''{}'' then Inr (PDict [])
         else Inl (Exn ''JSONDecodeError'' ''Expecting value: line 1 column 1 (char 0)''))
      ''not json''
     = Inl (Exn ''JSONDecodeError'' ''Expecting value: line 1 column 1 (char 0)'')
   \<and> kind (Exn ''JSONDecodeError'' ''Expecting value: line 1 column 1 (char 0)'')
       = ''JSONDecodeError''
   \<and> modify_customer_record
        (\<lambda>p. if p = ''{}'' then Inr (PDict [])
              else Inl (Exn ''JSONDecodeError'' ''Expecting value: line 1 column 1 (char 0)''))
        (\<lambda>v. []) (\<lambda>v. []) (rpc_post sample_other) 1 ''not json''
        \<lparr>server_store = initialize_database_schema ''2025-01-01T00:00:00+00:00'',
         server_clock = ''2025-06-01T12:00:00+00:00'', requests = []\<rparr> =
       (Inr ''Parsing Error: The provided data for update must be a valid JSON string.'',
        \<lparr>server_store = initialize_database_schema ''2025-01-01T00:00:00+00:00'',
         server_clock = ''2025-06-01T12:00:00+00:00'', requests = []\<rparr>)"
proof -
  let ?loads = "\<lambda>p. if p = ''{}'' then Inr (PDict [])
                     else Inl (Exn ''JSONDecodeError'' ''Expecting value: line 1 column 1 (char 0)'')"
  let ?e = "Exn ''JSONDecodeError'' ''Expecting value: line 1 column 1 (char 0)''"
  let ?w = "\<lparr>server_store = initialize_database_schema ''2025-01-01T00:00:00+00:00'',
             server_clock = ''2025-06-01T12:00:00+00:00'', requests = []\<rparr>"
  have l: "?loads ''not json'' = Inl ?e" by simp
  have k: "kind ?e = ''JSONDecodeError''" by simp
  from modify_customer_record_parse_failure
    [of ?loads "''not json''" ?e "\<lambda>v. []" "\<lambda>v. []" "rpc_post sample_other" 1 ?w, OF l k]
  have "modify_customer_record ?loads (\<lambda>v. []) (\<lambda>v. []) (rpc_post sample_other) 1 ''not json'' ?w =
          (Inr ''Parsing Error: The provided data for update must be a valid JSON string.'', ?w)"
    by blast
  with l k show ?thesis by blast
qed

text \<open>
  Claim C9. For every payload that is not valid JSON, \<^verbatim>\<open>modify_customer_record\<close> returns
  a parsing-error string and sends no request. The code returns that string when
  \<^verbatim>\<open>json.loads\<close> raises \<^verbatim>\<open>JSONDecodeError\<close> (\<open>modify_customer_record_parse_failure\<close>) and
  catches nothing else. On the payload of 1200 opening brackets, which is not valid
  JSON, the decoder of CPython recurses once for each bracket and raises
  \<^verbatim>\<open>RecursionError\<close>, which is not a \<^verbatim>\<open>JSONDecodeError\<close>: the exception leaves
  \<^verbatim>\<open>modify_customer_record\<close> and no parsing-error string is returned. The decoder below is
  \<^verbatim>\<open>json.loads\<close> on this payload and on \<^verbatim>\<open>{}\<close>.
\<close>

theorem modify_customer_record_deep_nesting:
  "modify_customer_record
     (\<lambda>p. if p = ''{}'' then Inr (PDict [])
           else if p = replicate 1200 CHR ''[''
           then Inl (Exn ''RecursionError''
                       (''maximum recursion depth exceeded while decoding a JSON array ''
                          @ ''from a unicode string''))
           else Inl (Exn ''JSONDecodeError'' ''Expecting value: line 1 column 1 (char 0)''))
     (\<lambda>v. []) (\<lambda>v. []) (rpc_post sample_other) 1 (replicate 1200 CHR ''['')
     \<lparr>server_store = initialize_database_schema ''2025-01-01T00:00:00+00:00'',
      server_clock = ''2025-06-01T12:00:00+00:00'', requests = []\<rparr> =
   (Inl (Exn ''RecursionError''
           (''maximum recursion depth exceeded while decoding a JSON array ''
              @ ''from a unicode string'')),
    \<lparr>server_store = initialize_database_schema ''2025-01-01T00:00:00+00:00'',
     server_clock = ''2025-06-01T12:00:00+00:00'', requests = []\<rparr>)"
proof -
  have other: "replicate 1200 CHR ''['' \<noteq> ''{}''"
  proof
    assume "replicate 1200 CHR ''['' = ''{}''"
    then have "length (replicate 1200 CHR ''['') = length ''{}''"
      by (rule arg_cong)
    then show False by simp
  qed
  show ?thesis
    by (simp add: modify_customer_record_def other)
qed

section \<open>The end-to-end scenario\<close>

text \<open>
  The scenario of the specification on the seeded store: the e-mail address of account 1
  is updated, a ticket of high priority is created for it, and its history then lists the
  new ticket first.
\<close>

lemma end_to_end_scenario:
  "(case update_customer sample_other 1 [(''contact_email'', PStr ''new@email.com'')]
           ''2025-06-01T12:00:00+00:00''
           (initialize_database_schema ''2025-01-01T00:00:00+00:00'') of
      (r1, s1) \<Rightarrow>
        (case create_ticket sample_other 1 ''Billing issue'' ''high''
                ''2025-06-01T12:00:01+00:00'' s1 of
           (r2, s2) \<Rightarrow>
             (case get_customer_history sample_other 1 ''2025-06-01T12:00:02+00:00'' s2 of
                (r3, s3) \<Rightarrow>
                  r1 = Inr (single (Account
                         \<lparr>identifier_col = 1, full_name = Some ''Alice Premium'',
                          contact_email = Some ''new@email.com'',
                          contact_phone = Some ''111-111-1111'',
                          account_status = Some ''active'',
                          creation_timestamp = ''2025-01-01T00:00:00+00:00'',
                          last_modified_timestamp = ''2025-06-01T12:00:00+00:00''\<rparr>))
                  \<and> r2 = Inr (single (Ticket
                         \<lparr>ticket_id = 8, account_id = 1, description = ''Billing issue'',
                          status = ''open'', priority_level = ''high'',
                          submission_timestamp = ''2025-06-01T12:00:01+00:00''\<rparr>))
                  \<and> r3 = Inr (listing (Tickets
                         [\<lparr>ticket_id = 8, account_id = 1, description = ''Billing issue'',
                           status = ''open'', priority_level = ''high'',
                           submission_timestamp = ''2025-06-01T12:00:01+00:00''\<rparr>,
                          seed_ticket 1 1 ''Billing duplicate charge'' ''open'' ''high''
                            ''2025-01-01T00:00:00+00:00'',
                          seed_ticket 2 1 ''Unable to login'' ''in_progress'' ''medium''
                            ''2025-01-01T00:00:00+00:00'']) 3)
                  \<and> s3 = s2)))"
  by (simp add: update_customer_unfold create_ticket_unfold get_customer_history_unfold
        modify_customer_details_def register_new_ticket_def retrieve_ticket_history_def
        valid_fields_def initialize_database_schema_def seed_account_def seed_ticket_def
        update_row_def set_column_def fits_int64_def next_ticket_id_def order_by_desc_def
        lower_def lower_char_def Let_def)

end
